theory Spec2Isabelle
  imports Complex_Main "HOL-Library.Product_Lexorder"
begin

section \<open>Python values and the library calls the pipeline relies on\<close>

text \<open>
  The values that reach \<^verbatim>\<open>safe_parse_json\<close>: a cell of the raw table, or a
  structure that is already decoded. \<open>PNaN\<close> is the float \<^verbatim>\<open>nan\<close> that pandas puts
  in an empty cell; a finite float is a real number (rounding is not modelled). A
  \<^verbatim>\<open>dict\<close> is the list of its items in insertion order.
\<close>

datatype pyval =
    PNone
  | PNaN
  | PBool bool
  | PInt int
  | PFloat real
  | PStr string
  | PList "pyval list"
  | PDict "(string \<times> pyval) list"

datatype pyerror =
    ValueError | JSONDecodeError | TypeError | RecursionError | KeyError | StopExecution

text \<open>
  The exceptions that end a call. \<^verbatim>\<open>json.JSONDecodeError\<close> is a subclass of
  \<^verbatim>\<open>ValueError\<close>; \<open>ValueError\<close> here is a \<^verbatim>\<open>ValueError\<close> that is not a
  \<^verbatim>\<open>JSONDecodeError\<close>.

  What the code takes from its libraries. \<open>json_loads\<close> is \<^verbatim>\<open>json.loads\<close> on a
  string: the decoded value, or the exception it raises. On malformed text that is
  \<^verbatim>\<open>json.JSONDecodeError\<close>; on an integer literal longer than the interpreter's digit
  limit it is a plain \<^verbatim>\<open>ValueError\<close>, and on text nested deeper than the recursion
  limit \<^verbatim>\<open>RecursionError\<close>. \<open>empty_array_truth\<close>
  is the truth value of an empty NumPy array, which depends on the NumPy release
  (\<open>Inr False\<close> with a deprecation warning, \<open>Inl ValueError\<close> in later releases).
  \<open>to_datetime col v\<close> is the entry that \<^verbatim>\<open>pd.to_datetime(col, errors="coerce")\<close>
  holds for the value \<open>v\<close> of the column \<open>col\<close>: a day number, or \<open>None\<close> for
  \<^verbatim>\<open>NaT\<close> (pandas infers the format from the column, so the column is an argument).
\<close>

record pylib =
  json_loads :: "string \<Rightarrow> pyerror + pyval"
  empty_array_truth :: "pyerror + bool"
  to_datetime :: "pyval list \<Rightarrow> pyval \<Rightarrow> int option"

definition isinstance_dict :: "pyval \<Rightarrow> bool" where
  "isinstance_dict v = (case v of PDict _ \<Rightarrow> True | _ \<Rightarrow> False)"

definition isinstance_list :: "pyval \<Rightarrow> bool" where
  "isinstance_list v = (case v of PList _ \<Rightarrow> True | _ \<Rightarrow> False)"

text \<open>\<^verbatim>\<open>d.get(k)\<close>: the value stored under \<open>k\<close>, \<^verbatim>\<open>None\<close> when the key is missing.\<close>

definition dict_get :: "pyval \<Rightarrow> string \<Rightarrow> pyval" where
  "dict_get d k =
     (case d of
        PDict items \<Rightarrow> (case map_of items k of None \<Rightarrow> PNone | Some v \<Rightarrow> v)
      | _ \<Rightarrow> PNone)"

subsection \<open>\<^verbatim>\<open>pd.isna\<close> and the truth value of its result\<close>

text \<open>
  On a scalar \<^verbatim>\<open>pd.isna\<close> answers with one boolean: true for \<^verbatim>\<open>None\<close> and
  \<^verbatim>\<open>nan\<close>; a \<^verbatim>\<open>dict\<close> counts as a scalar that is not missing. On a \<^verbatim>\<open>list\<close> it
  answers with a boolean array, one entry per element of
  \<^verbatim>\<open>np.asarray(obj, dtype=object)\<close>. That array has one axis per level of nesting as
  long as the sublists agree in length (\<open>np_shape\<close>); \<open>np_ravel\<close> lists its elements.
\<close>

definition checknull :: "pyval \<Rightarrow> bool" where
  "checknull v = (v = PNone \<or> v = PNaN)"

fun common_prefix :: "nat list \<Rightarrow> nat list \<Rightarrow> nat list" where
  "common_prefix (x # xs) (y # ys) = (if x = y then x # common_prefix xs ys else [])"
| "common_prefix _ _ = []"

fun np_shape :: "pyval \<Rightarrow> nat list" where
  "np_shape (PList xs) =
     length xs # (case map np_shape xs of [] \<Rightarrow> [] | s # ss \<Rightarrow> foldl common_prefix s ss)"
| "np_shape _ = []"

fun np_ravel :: "nat \<Rightarrow> pyval \<Rightarrow> pyval list" where
  "np_ravel 0 v = [v]"
| "np_ravel (Suc d) (PList xs) = concat (map (np_ravel d) xs)"
| "np_ravel (Suc d) v = [v]"

datatype isna_result = IsnaScalar bool | IsnaArray "bool list"

definition pd_isna :: "pyval \<Rightarrow> isna_result" where
  "pd_isna obj =
     (case obj of
        PList xs \<Rightarrow> IsnaArray (map checknull (np_ravel (length (np_shape obj)) obj))
      | _ \<Rightarrow> IsnaScalar (checknull obj))"

text \<open>
  \<^verbatim>\<open>if pd.isna(raw):\<close> asks for the truth value of the result. An array with more than
  one element has none: NumPy raises \<^verbatim>\<open>ValueError\<close>.
\<close>

definition py_bool :: "pylib \<Rightarrow> isna_result \<Rightarrow> pyerror + bool" where
  "py_bool L r =
     (case r of
        IsnaScalar b \<Rightarrow> Inr b
      | IsnaArray [] \<Rightarrow> empty_array_truth L
      | IsnaArray [b] \<Rightarrow> Inr b
      | IsnaArray _ \<Rightarrow> Inl ValueError)"

section \<open>The Safe JSON Decoder\<close>

text \<open>
  \<^verbatim>\<open>
  def safe_parse_json(raw):
      if pd.isna(raw):
          return None
      if isinstance(raw, (dict, list)):
          return raw
      try:
          return json.loads(raw)
      except (json.JSONDecodeError, TypeError):
          return None
  \<close>
  \<^verbatim>\<open>json.loads\<close> raises \<^verbatim>\<open>TypeError\<close> on anything that is not a string. The
  \<^verbatim>\<open>except\<close> clause catches \<^verbatim>\<open>JSONDecodeError\<close> and \<^verbatim>\<open>TypeError\<close>; any other
  exception of \<^verbatim>\<open>json.loads\<close> leaves the function.
\<close>

definition except_clause :: "pyerror \<Rightarrow> bool" where
  "except_clause e = (e = JSONDecodeError \<or> e = TypeError)"

definition safe_parse_json :: "pylib \<Rightarrow> pyval \<Rightarrow> pyerror + pyval" where
  "safe_parse_json L raw =
     (case py_bool L (pd_isna raw) of
        Inl e \<Rightarrow> Inl e
      | Inr True \<Rightarrow> Inr PNone
      | Inr False \<Rightarrow>
          if isinstance_dict raw \<or> isinstance_list raw then Inr raw
          else (case raw of
                  PStr s \<Rightarrow>
                    (case json_loads L s of
                       Inl e \<Rightarrow> if except_clause e then Inr PNone else Inl e
                     | Inr v \<Rightarrow> Inr v)
                | _ \<Rightarrow> Inr PNone))"

section \<open>The History Flattener\<close>

text \<open>
  A row of the raw table, with the columns the flattener reads, and the records it
  appends, \<^verbatim>\<open>{"item_id": ..., "date": ..., "revenue": ...}\<close> and
  \<^verbatim>\<open>{"item_id": ..., "date": ..., "price": ...}\<close>. The type \<open>'d\<close> of the date
  changes when the column is converted. The identifier column is taken to hold no
  missing value.
\<close>

record 'i keyed =
  item_id :: 'i

record 'i listing = "'i keyed" +
  monthly_revenue_history :: pyval
  promotion_history :: pyval

record ('i, 'd) revenue_record = "'i keyed" +
  r_date :: 'd
  r_revenue :: pyval

record ('i, 'd) price_record = "'i keyed" +
  p_date :: 'd
  p_price :: pyval

text \<open>
  \<^verbatim>\<open>
  for entry in parsed:
      if not isinstance(entry, dict):
          continue
      records.append({"item_id": item_id, "date": entry.get("date"),
                      "revenue": entry.get("avg_monthly_revenue")})
  \<close>
\<close>

fun revenue_entries :: "'i \<Rightarrow> ('i, pyval) revenue_record list \<Rightarrow> pyval list \<Rightarrow> ('i, pyval) revenue_record list" where
  "revenue_entries i records [] = records"
| "revenue_entries i records (entry # rest) =
     (if \<not> isinstance_dict entry then revenue_entries i records rest
      else revenue_entries i
             (records @ [\<lparr>item_id = i, r_date = dict_get entry ''date'',
                          r_revenue = dict_get entry ''avg_monthly_revenue''\<rparr>]) rest)"

fun revenue_rows_loop ::
  "pylib \<Rightarrow> ('i, pyval) revenue_record list \<Rightarrow> 'i listing list \<Rightarrow> pyerror + ('i, pyval) revenue_record list" where
  "revenue_rows_loop L records [] = Inr records"
| "revenue_rows_loop L records (row # rest) =
     (case safe_parse_json L (monthly_revenue_history row) of
        Inl e \<Rightarrow> Inl e
      | Inr parsed \<Rightarrow>
          if parsed = PNone \<or> \<not> isinstance_list parsed then revenue_rows_loop L records rest
          else (case parsed of
                  PList entries \<Rightarrow>
                    revenue_rows_loop L (revenue_entries (item_id row) records entries) rest
                | _ \<Rightarrow> revenue_rows_loop L records rest))"

definition flatten_revenue_history ::
  "pylib \<Rightarrow> 'i listing list \<Rightarrow> pyerror + ('i, pyval) revenue_record list" where
  "flatten_revenue_history L df = revenue_rows_loop L [] df"

fun price_entries :: "'i \<Rightarrow> ('i, pyval) price_record list \<Rightarrow> pyval list \<Rightarrow> ('i, pyval) price_record list" where
  "price_entries i records [] = records"
| "price_entries i records (entry # rest) =
     (if \<not> isinstance_dict entry then price_entries i records rest
      else price_entries i
             (records @ [\<lparr>item_id = i, p_date = dict_get entry ''date'',
                          p_price = dict_get entry ''value''\<rparr>]) rest)"

fun price_rows_loop ::
  "pylib \<Rightarrow> ('i, pyval) price_record list \<Rightarrow> 'i listing list \<Rightarrow> pyerror + ('i, pyval) price_record list" where
  "price_rows_loop L records [] = Inr records"
| "price_rows_loop L records (row # rest) =
     (case safe_parse_json L (promotion_history row) of
        Inl e \<Rightarrow> Inl e
      | Inr parsed \<Rightarrow>
          if parsed = PNone \<or> \<not> isinstance_list parsed then price_rows_loop L records rest
          else (case parsed of
                  PList entries \<Rightarrow>
                    price_rows_loop L (price_entries (item_id row) records entries) rest
                | _ \<Rightarrow> price_rows_loop L records rest))"

definition flatten_promotion_history ::
  "pylib \<Rightarrow> 'i listing list \<Rightarrow> pyerror + ('i, pyval) price_record list" where
  "flatten_promotion_history L df = price_rows_loop L [] df"

text \<open>
  The flattener in the words of its specification: what one record contributes.
  Decode the payload; nothing when the decoder gives no sequence; otherwise one row
  for each element that is a mapping, in order.
\<close>

definition revenue_rows_of :: "pylib \<Rightarrow> 'i listing \<Rightarrow> ('i, pyval) revenue_record list" where
  "revenue_rows_of L row =
     (case safe_parse_json L (monthly_revenue_history row) of
        Inr (PList entries) \<Rightarrow>
          map (\<lambda>entry. \<lparr>item_id = item_id row, r_date = dict_get entry ''date'',
                         r_revenue = dict_get entry ''avg_monthly_revenue''\<rparr>)
              (filter isinstance_dict entries)
      | _ \<Rightarrow> [])"

definition price_rows_of :: "pylib \<Rightarrow> 'i listing \<Rightarrow> ('i, pyval) price_record list" where
  "price_rows_of L row =
     (case safe_parse_json L (promotion_history row) of
        Inr (PList entries) \<Rightarrow>
          map (\<lambda>entry. \<lparr>item_id = item_id row, p_date = dict_get entry ''date'',
                         p_price = dict_get entry ''value''\<rparr>)
              (filter isinstance_dict entries)
      | _ \<Rightarrow> [])"

text \<open>What \<^verbatim>\<open>pd.read_csv\<close> puts in a cell: never a list or a dict.\<close>

definition csv_cell :: "pyval \<Rightarrow> bool" where
  "csv_cell v = (\<not> isinstance_dict v \<and> \<not> isinstance_list v)"

definition decoder_returns :: "pylib \<Rightarrow> pyval \<Rightarrow> bool" where
  "decoder_returns L raw = (case safe_parse_json L raw of Inl _ \<Rightarrow> False | Inr _ \<Rightarrow> True)"

subsection \<open>An example raw table\<close>

text \<open>
  A text cell holding an integer literal of 5000 digits: \<^verbatim>\<open>json.loads\<close> raises a plain
  \<^verbatim>\<open>ValueError\<close> on it where the interpreter limits integer conversion to 4300
  digits. \<open>example_lib\<close> is \<^verbatim>\<open>json.loads\<close> on the four texts of the example: that
  literal, a history with one mapping and one number, an empty object, and malformed
  text.
\<close>

definition long_integer_text :: string where
  "long_integer_text = replicate 5000 (CHR ''1'')"

definition example_lib :: pylib where
  "example_lib =
     \<lparr>json_loads = (\<lambda>s.
        if s = long_integer_text then Inl ValueError
        else if s = ''[{\"date\": \"2024-01-05\", \"avg_monthly_revenue\": 120, \"value\": 9}, 7]''
        then Inr (PList [PDict [(''date'', PStr ''2024-01-05''), (''avg_monthly_revenue'', PInt 120),
                                (''value'', PInt 9)], PInt 7])
        else if s = ''{}'' then Inr (PDict [])
        else Inl JSONDecodeError),
      empty_array_truth = Inr False,
      to_datetime = (\<lambda>col v. None)\<rparr>"

definition example_listings :: "nat listing list" where
  "example_listings =
     [\<lparr>item_id = 1,
        monthly_revenue_history =
          PStr ''[{\"date\": \"2024-01-05\", \"avg_monthly_revenue\": 120, \"value\": 9}, 7]'',
        promotion_history = PNaN\<rparr>,
      \<lparr>item_id = 2, monthly_revenue_history = PStr ''oops'', promotion_history = PStr ''{}''\<rparr>,
      \<lparr>item_id = 3, monthly_revenue_history = PNaN,
        promotion_history =
          PStr ''[{\"date\": \"2024-01-05\", \"avg_monthly_revenue\": 120, \"value\": 9}, 7]''\<rparr>]"

section \<open>The Series Reconciler\<close>

text \<open>
  Steps 5 to 7 of \<^verbatim>\<open>main\<close>. Dates are day numbers after the conversion, \<open>None\<close>
  is \<^verbatim>\<open>NaT\<close>. A value is missing when \<open>checknull\<close> holds of it.
\<close>

record 'i merged_row = "'i keyed" +
  m_date :: "int option"
  m_revenue :: pyval
  m_price :: pyval

text \<open>\<^verbatim>\<open>revenue_df["date"] = pd.to_datetime(revenue_df["date"], errors="coerce")\<close>\<close>

definition revenue_to_datetime ::
  "pylib \<Rightarrow> ('i, pyval) revenue_record list \<Rightarrow> ('i, int option) revenue_record list" where
  "revenue_to_datetime L df =
     map (\<lambda>r. \<lparr>item_id = item_id r, r_date = to_datetime L (map r_date df) (r_date r),
                r_revenue = r_revenue r\<rparr>) df"

definition promotion_to_datetime ::
  "pylib \<Rightarrow> ('i, pyval) price_record list \<Rightarrow> ('i, int option) price_record list" where
  "promotion_to_datetime L df =
     map (\<lambda>r. \<lparr>item_id = item_id r, p_date = to_datetime L (map p_date df) (p_date r),
                p_price = p_price r\<rparr>) df"

text \<open>
  \<^verbatim>\<open>pd.merge(revenue_df, promotion_df, on=["item_id", "date"], how="left")\<close>: the rows
  of the left frame in their order, each once per matching row of the right frame, and
  once with a missing price when none matches. Missing keys match each other.
\<close>

definition merge_left ::
  "('i, int option) revenue_record list \<Rightarrow> ('i, int option) price_record list \<Rightarrow> 'i merged_row list" where
  "merge_left revenue_df promotion_df =
     concat (map (\<lambda>l.
       case filter (\<lambda>r. item_id r = item_id l \<and> p_date r = r_date l) promotion_df of
         [] \<Rightarrow> [\<lparr>item_id = item_id l, m_date = r_date l, m_revenue = r_revenue l, m_price = PNaN\<rparr>]
       | ms \<Rightarrow> map (\<lambda>r. \<lparr>item_id = item_id l, m_date = r_date l, m_revenue = r_revenue l,
                          m_price = p_price r\<rparr>) ms) revenue_df)"

text \<open>
  \<^verbatim>\<open>pd.DataFrame([])\<close> has no column: when a flattener appended nothing, the merge
  finds no \<^verbatim>\<open>item_id\<close> column in that frame and raises \<^verbatim>\<open>KeyError\<close>.
\<close>

definition pd_merge ::
  "('i, int option) revenue_record list \<Rightarrow> ('i, int option) price_record list \<Rightarrow>
   pyerror + 'i merged_row list" where
  "pd_merge revenue_df promotion_df =
     (if revenue_df = [] \<or> promotion_df = [] then Inl KeyError
      else Inr (merge_left revenue_df promotion_df))"

text \<open>
  \<^verbatim>\<open>merged_df.sort_values(by=["item_id", "date"])\<close>: a stable sort, \<^verbatim>\<open>NaT\<close> after
  every date of the same item.
\<close>

definition na_last :: "int option \<Rightarrow> nat \<times> int" where
  "na_last d = (case d of None \<Rightarrow> (1, 0) | Some t \<Rightarrow> (0, t))"

definition sort_values :: "('i::linorder) merged_row list \<Rightarrow> 'i merged_row list" where
  "sort_values df = sort_key (\<lambda>r. (item_id r, na_last (m_date r))) df"

text \<open>
  \<^verbatim>\<open>merged_df.groupby("item_id")["price"].ffill()\<close>: row by row in the frame's order,
  with the last price seen for each item; a missing price takes it, a known price
  replaces it.
\<close>

fun ffill_loop :: "('i \<rightharpoonup> pyval) \<Rightarrow> 'i merged_row list \<Rightarrow> 'i merged_row list" where
  "ffill_loop last_seen [] = []"
| "ffill_loop last_seen (r # rs) =
     (if checknull (m_price r)
      then (case last_seen (item_id r) of None \<Rightarrow> r | Some p \<Rightarrow> r\<lparr>m_price := p\<rparr>)
             # ffill_loop last_seen rs
      else r # ffill_loop (last_seen(item_id r \<mapsto> m_price r)) rs)"

definition groupby_ffill_price :: "'i merged_row list \<Rightarrow> 'i merged_row list" where
  "groupby_ffill_price df = ffill_loop Map.empty df"

definition reconcile ::
  "('i::linorder, int option) revenue_record list \<Rightarrow> ('i, int option) price_record list \<Rightarrow>
   pyerror + 'i merged_row list" where
  "reconcile revenue_df promotion_df =
     (case pd_merge revenue_df promotion_df of
        Inl e \<Rightarrow> Inl e
      | Inr merged_df \<Rightarrow> Inr (groupby_ffill_price (sort_values merged_df)))"

text \<open>Steps 3 to 7 of \<^verbatim>\<open>main\<close>, from the raw table to the reconciled series.\<close>

definition main_series :: "pylib \<Rightarrow> ('i::linorder) listing list \<Rightarrow> pyerror + 'i merged_row list" where
  "main_series L df =
     (case flatten_revenue_history L df of
        Inl e \<Rightarrow> Inl e
      | Inr revenue_df \<Rightarrow>
          (case flatten_promotion_history L df of
             Inl e \<Rightarrow> Inl e
           | Inr promotion_df \<Rightarrow>
               reconcile (revenue_to_datetime L revenue_df) (promotion_to_datetime L promotion_df)))"


subsection \<open>Example series\<close>

text \<open>
  Two items after the date conversion, the revenue rows not in date order. Item 1 has
  revenue on days 10, 20 and 30 and prices on days 10, 25 and 30; item 2 has revenue on
  days 12, 15 and 20 (the last one missing its value) and one price on day 15.
\<close>

definition example_revenue :: "(nat, int option) revenue_record list" where
  "example_revenue =
     [\<lparr>item_id = 2, r_date = Some 20, r_revenue = PNone\<rparr>,
      \<lparr>item_id = 1, r_date = Some 20, r_revenue = PFloat 110\<rparr>,
      \<lparr>item_id = 1, r_date = Some 10, r_revenue = PFloat 100\<rparr>,
      \<lparr>item_id = 2, r_date = Some 12, r_revenue = PFloat 40\<rparr>,
      \<lparr>item_id = 1, r_date = Some 30, r_revenue = PFloat 120\<rparr>,
      \<lparr>item_id = 2, r_date = Some 15, r_revenue = PFloat 45\<rparr>]"

definition example_promotion :: "(nat, int option) price_record list" where
  "example_promotion =
     [\<lparr>item_id = 1, p_date = Some 10, p_price = PFloat 5\<rparr>,
      \<lparr>item_id = 1, p_date = Some 25, p_price = PFloat 6\<rparr>,
      \<lparr>item_id = 1, p_date = Some 30, p_price = PFloat 9\<rparr>,
      \<lparr>item_id = 2, p_date = Some 15, p_price = PFloat 7\<rparr>]"



section \<open>The dashboard: filters, snapshots and KPIs\<close>

text \<open>
  A row of the canonical table as \<^verbatim>\<open>load_data\<close> returns it, with the columns the
  KPIs read. Dates are day numbers (\<open>None\<close> is \<^verbatim>\<open>NaT\<close>), so that
  \<^verbatim>\<open>pd.Timedelta(weeks=4)\<close> is 28. In a numeric column \<open>None\<close> is \<^verbatim>\<open>nan\<close>; floats
  are real numbers (rounding is not modelled). The identifier and brand columns are
  taken to hold no missing value.
\<close>

record ('i, 'b) item_info = "'i keyed" +
  brand_name :: 'b
  title :: "string option"
  rating :: "real option"
  rating_count :: "int option"

record ('i, 'b) canonical_row = "('i, 'b) item_info" +
  date :: "int option"
  revenue :: "real option"

text \<open>The state of the sidebar widgets.\<close>

record ('i, 'b) filters =
  date_start :: int
  date_end :: int
  sel_brands :: "'b list"
  sel_skus :: "'i list"
  rating_thresh :: real
  count_thresh :: int
  growth_thresh :: int

subsection \<open>Column operations of pandas and Python\<close>

text \<open>\<^verbatim>\<open>Series.sum()\<close> skips missing values and is 0 on an empty column.\<close>

definition pd_sum :: "real option list \<Rightarrow> real" where
  "pd_sum col = sum_list (map (\<lambda>v. case v of None \<Rightarrow> 0 | Some x \<Rightarrow> x) col)"

text \<open>\<^verbatim>\<open>Series.mean()\<close> skips missing values and is \<^verbatim>\<open>nan\<close> when none is left.\<close>

definition pd_mean :: "real option list \<Rightarrow> real option" where
  "pd_mean col =
     (let xs = List.map_filter (\<lambda>v. v) col
      in if xs = [] then None else Some (sum_list xs / real (length xs)))"

text \<open>\<^verbatim>\<open>Series.max()\<close> on dates skips \<^verbatim>\<open>NaT\<close> and is \<^verbatim>\<open>NaT\<close> when none is left.\<close>

definition pd_max :: "int option list \<Rightarrow> int option" where
  "pd_max col =
     (case List.map_filter (\<lambda>v. v) col of [] \<Rightarrow> None | d # ds \<Rightarrow> Some (fold max ds d))"

text \<open>A comparison with a missing value is false.\<close>

definition nan_lt :: "('a::ord) option \<Rightarrow> 'a \<Rightarrow> bool" where
  "nan_lt v t = (case v of None \<Rightarrow> False | Some x \<Rightarrow> x < t)"

definition nan_gt :: "('a::ord) option \<Rightarrow> 'a \<Rightarrow> bool" where
  "nan_gt v t = (case v of None \<Rightarrow> False | Some x \<Rightarrow> x > t)"

definition nan_ge :: "('a::ord) option \<Rightarrow> 'a \<Rightarrow> bool" where
  "nan_ge v t = (case v of None \<Rightarrow> False | Some x \<Rightarrow> x \<ge> t)"

definition timedelta_lt :: "int option \<Rightarrow> int option \<Rightarrow> bool" where
  "timedelta_lt a b =
     (case a of None \<Rightarrow> False | Some x \<Rightarrow> (case b of None \<Rightarrow> False | Some y \<Rightarrow> x < y))"

definition date_eq :: "int option \<Rightarrow> int option \<Rightarrow> bool" where
  "date_eq a b = (a \<noteq> None \<and> a = b)"

text \<open>
  \<^verbatim>\<open>drop_duplicates\<close> and \<^verbatim>\<open>unique\<close> keep the first row of each key, in the order of
  the frame.
\<close>

fun keep_first :: "('r \<Rightarrow> 'k) \<Rightarrow> 'k list \<Rightarrow> 'r list \<Rightarrow> 'r list" where
  "keep_first key seen [] = []"
| "keep_first key seen (r # rs) =
     (if key r \<in> set seen then keep_first key seen rs
      else r # keep_first key (key r # seen) rs)"

definition unique :: "'a list \<Rightarrow> 'a list" where
  "unique col = keep_first (\<lambda>x. x) [] col"

text \<open>\<^verbatim>\<open>raw.drop_duplicates(subset=["item_id", "date"])\<close>\<close>

definition drop_duplicates :: "('i, 'b) canonical_row list \<Rightarrow> ('i, 'b) canonical_row list" where
  "drop_duplicates df = keep_first (\<lambda>r. (item_id r, date r)) [] df"

text \<open>
  \<^verbatim>\<open>min(xs, key=f)\<close>: \<^verbatim>\<open>ValueError\<close> on an empty sequence; otherwise the first
  element is the best so far, and a later one replaces it only when its key is
  smaller.
\<close>

fun py_min_loop :: "('a \<Rightarrow> int option) \<Rightarrow> 'a \<Rightarrow> 'a list \<Rightarrow> 'a" where
  "py_min_loop key best [] = best"
| "py_min_loop key best (x # xs) =
     py_min_loop key (if timedelta_lt (key x) (key best) then x else best) xs"

definition py_min :: "('a \<Rightarrow> int option) \<Rightarrow> 'a list \<Rightarrow> pyerror + 'a" where
  "py_min key xs = (case xs of [] \<Rightarrow> Inl ValueError | x # rest \<Rightarrow> Inr (py_min_loop key x rest))"

text \<open>\<^verbatim>\<open>GroupBy.first\<close>: the first value of the group that is not missing.\<close>

fun first_valid :: "'a option list \<Rightarrow> 'a option" where
  "first_valid [] = None"
| "first_valid (Some x # vs) = Some x"
| "first_valid (None # vs) = first_valid vs"

subsection \<open>Filters and the two snapshot dates\<close>

text \<open>
  \<^verbatim>\<open>
  item_df = raw.drop_duplicates(subset=["item_id", "date"]).copy()
  item_df = item_df[(item_df["date"] >= date_start) & (item_df["date"] <= date_end)]
  LATEST_DATE = item_df["date"].max()
  FOUR_W_AGO = LATEST_DATE - pd.Timedelta(weeks=4)
  nearest_4w = item_df["date"].unique()
  nearest_4w = pd.Timestamp(min(nearest_4w, key=lambda d: abs(d - FOUR_W_AGO)))
  \<close>
\<close>

definition in_date_range :: "('i, 'b) filters \<Rightarrow> ('i, 'b) canonical_row \<Rightarrow> bool" where
  "in_date_range cfg r =
     (case date r of None \<Rightarrow> False | Some d \<Rightarrow> date_start cfg \<le> d \<and> d \<le> date_end cfg)"

definition item_df :: "('i, 'b) filters \<Rightarrow> ('i, 'b) canonical_row list \<Rightarrow> ('i, 'b) canonical_row list" where
  "item_df cfg raw = filter (in_date_range cfg) (drop_duplicates raw)"

definition LATEST_DATE :: "('i, 'b) filters \<Rightarrow> ('i, 'b) canonical_row list \<Rightarrow> int option" where
  "LATEST_DATE cfg raw = pd_max (map date (item_df cfg raw))"

definition FOUR_W_AGO :: "('i, 'b) filters \<Rightarrow> ('i, 'b) canonical_row list \<Rightarrow> int option" where
  "FOUR_W_AGO cfg raw = (case LATEST_DATE cfg raw of None \<Rightarrow> None | Some d \<Rightarrow> Some (d - 28))"

text \<open>The dates of the column (the range filter has left no \<^verbatim>\<open>NaT\<close> in it).\<close>

definition date_values :: "('i, 'b) canonical_row list \<Rightarrow> int list" where
  "date_values df = List.map_filter date df"

definition distance_to :: "int option \<Rightarrow> int \<Rightarrow> int option" where
  "distance_to target d = (case target of None \<Rightarrow> None | Some t \<Rightarrow> Some \<bar>d - t\<bar>)"

definition nearest_4w :: "('i, 'b) filters \<Rightarrow> ('i, 'b) canonical_row list \<Rightarrow> pyerror + int" where
  "nearest_4w cfg raw =
     py_min (distance_to (FOUR_W_AGO cfg raw)) (unique (date_values (item_df cfg raw)))"

text \<open>
  \<^verbatim>\<open>
  all_brands = sorted(item_df["brand_name"].unique())
  active_brands = sel_brands if sel_brands else all_brands
  all_skus = sorted(item_df[item_df["brand_name"].isin(active_brands)]["item_id"].unique())
  active_skus = sel_skus if sel_skus else all_skus
  filt = item_df[(item_df["brand_name"].isin(active_brands)) & (item_df["item_id"].isin(active_skus))]
  \<close>
\<close>

definition all_brands :: "('i, 'b::linorder) filters \<Rightarrow> ('i, 'b) canonical_row list \<Rightarrow> 'b list" where
  "all_brands cfg raw = sort (unique (map brand_name (item_df cfg raw)))"

definition active_brands :: "('i, 'b::linorder) filters \<Rightarrow> ('i, 'b) canonical_row list \<Rightarrow> 'b list" where
  "active_brands cfg raw = (if sel_brands cfg \<noteq> [] then sel_brands cfg else all_brands cfg raw)"

definition all_skus :: "('i::linorder, 'b::linorder) filters \<Rightarrow> ('i, 'b) canonical_row list \<Rightarrow> 'i list" where
  "all_skus cfg raw =
     sort (unique (map item_id
       (filter (\<lambda>r. brand_name r \<in> set (active_brands cfg raw)) (item_df cfg raw))))"

definition active_skus :: "('i::linorder, 'b::linorder) filters \<Rightarrow> ('i, 'b) canonical_row list \<Rightarrow> 'i list" where
  "active_skus cfg raw = (if sel_skus cfg \<noteq> [] then sel_skus cfg else all_skus cfg raw)"

definition filt ::
  "('i::linorder, 'b::linorder) filters \<Rightarrow> ('i, 'b) canonical_row list \<Rightarrow> ('i, 'b) canonical_row list" where
  "filt cfg raw =
     filter (\<lambda>r. brand_name r \<in> set (active_brands cfg raw) \<and> item_id r \<in> set (active_skus cfg raw))
       (item_df cfg raw)"

subsection \<open>KPI computation\<close>

text \<open>
  \<^verbatim>\<open>
  latest = filt[filt["date"] == LATEST_DATE]
  prev = filt[filt["date"] == nearest_4w]
  total_rev_latest = latest["revenue"].sum()
  total_rev_4w = prev["revenue"].sum()
  growth_pct = ((total_rev_latest - total_rev_4w) / total_rev_4w * 100) if total_rev_4w else 0
  risky = latest[(latest["rating"] < rating_thresh) & (latest["rating_count"] > count_thresh)]
  rev_at_risk = risky["revenue"].sum()
  \<close>
  What follows line 117 takes the reference date \<open>n4\<close> that \<open>nearest_4w\<close> returned.
  The source uses the name \<^verbatim>\<open>growth_pct\<close> twice, for the portfolio figure and for the
  column of \<^verbatim>\<open>sku_merged\<close>; the portfolio figure is \<open>portfolio_growth_pct\<close> here.
\<close>

definition latest ::
  "('i::linorder, 'b::linorder) filters \<Rightarrow> ('i, 'b) canonical_row list \<Rightarrow> ('i, 'b) canonical_row list" where
  "latest cfg raw = filter (\<lambda>r. date_eq (date r) (LATEST_DATE cfg raw)) (filt cfg raw)"

definition prev ::
  "('i::linorder, 'b::linorder) filters \<Rightarrow> ('i, 'b) canonical_row list \<Rightarrow> int \<Rightarrow> ('i, 'b) canonical_row list" where
  "prev cfg raw n4 = filter (\<lambda>r. date_eq (date r) (Some n4)) (filt cfg raw)"

definition total_rev_latest :: "('i::linorder, 'b::linorder) filters \<Rightarrow> ('i, 'b) canonical_row list \<Rightarrow> real" where
  "total_rev_latest cfg raw = pd_sum (map revenue (latest cfg raw))"

definition total_rev_4w ::
  "('i::linorder, 'b::linorder) filters \<Rightarrow> ('i, 'b) canonical_row list \<Rightarrow> int \<Rightarrow> real" where
  "total_rev_4w cfg raw n4 = pd_sum (map revenue (prev cfg raw n4))"

definition portfolio_growth_pct ::
  "('i::linorder, 'b::linorder) filters \<Rightarrow> ('i, 'b) canonical_row list \<Rightarrow> int \<Rightarrow> real" where
  "portfolio_growth_pct cfg raw n4 =
     (if total_rev_4w cfg raw n4 \<noteq> 0
      then (total_rev_latest cfg raw - total_rev_4w cfg raw n4) / total_rev_4w cfg raw n4 * 100
      else 0)"

definition risky ::
  "('i::linorder, 'b::linorder) filters \<Rightarrow> ('i, 'b) canonical_row list \<Rightarrow> ('i, 'b) canonical_row list" where
  "risky cfg raw =
     filter (\<lambda>r. nan_lt (rating r) (rating_thresh cfg) \<and> nan_gt (rating_count r) (count_thresh cfg))
       (latest cfg raw)"

definition rev_at_risk :: "('i::linorder, 'b::linorder) filters \<Rightarrow> ('i, 'b) canonical_row list \<Rightarrow> real" where
  "rev_at_risk cfg raw = pd_sum (map revenue (risky cfg raw))"

text \<open>
  \<^verbatim>\<open>
  sku_latest = latest.groupby("item_id").agg(revenue_latest=("revenue", "first"), ...).reset_index()
  sku_prev = prev.groupby("item_id").agg(revenue_4w=("revenue", "first")).reset_index()
  sku_merged = sku_latest.merge(sku_prev, on="item_id", how="left")
  sku_merged["growth_pct"] = sku_merged.apply(
      lambda r: ((r["revenue_latest"] - r["revenue_4w"]) / r["revenue_4w"] * 100)
      if pd.notna(r["revenue_4w"]) and r["revenue_4w"] > 0 else None, axis=1)
  \<close>
  A group-by gives one row per key, the keys in ascending order. \<open>sku_prev\<close> has one
  row per item, so the left merge looks the item up in it; an item without a row there
  gets a missing \<^verbatim>\<open>revenue_4w\<close>. A missing \<^verbatim>\<open>revenue_latest\<close> makes the quotient
  \<^verbatim>\<open>nan\<close>, which is a missing value again.
\<close>

record ('i, 'b) sku_latest_row = "('i, 'b) item_info" +
  revenue_latest :: "real option"

record ('i, 'b) sku_row = "('i, 'b) sku_latest_row" +
  revenue_4w :: "real option"
  growth_pct :: "real option"

definition sku_latest ::
  "('i::linorder, 'b::linorder) filters \<Rightarrow> ('i, 'b) canonical_row list \<Rightarrow> ('i, 'b) sku_latest_row list" where
  "sku_latest cfg raw =
     concat (map (\<lambda>k.
       case filter (\<lambda>r. item_id r = k) (latest cfg raw) of
         [] \<Rightarrow> []
       | r # rs \<Rightarrow>
           [\<lparr>item_id = k, brand_name = brand_name r,
             title = first_valid (map title (r # rs)),
             rating = first_valid (map rating (r # rs)),
             rating_count = first_valid (map rating_count (r # rs)),
             revenue_latest = first_valid (map revenue (r # rs))\<rparr>])
       (sort (unique (map item_id (latest cfg raw)))))"

definition sku_prev ::
  "('i::linorder, 'b::linorder) filters \<Rightarrow> ('i, 'b) canonical_row list \<Rightarrow> int \<Rightarrow> ('i \<times> real option) list" where
  "sku_prev cfg raw n4 =
     map (\<lambda>k. (k, first_valid (map revenue (filter (\<lambda>r. item_id r = k) (prev cfg raw n4)))))
       (sort (unique (map item_id (prev cfg raw n4))))"

definition sku_growth :: "real option \<Rightarrow> real option \<Rightarrow> real option" where
  "sku_growth rev_latest rev_4w =
     (case rev_4w of
        None \<Rightarrow> None
      | Some b \<Rightarrow>
          if b > 0 then (case rev_latest of None \<Rightarrow> None | Some a \<Rightarrow> Some ((a - b) / b * 100))
          else None)"

definition sku_merged ::
  "('i::linorder, 'b::linorder) filters \<Rightarrow> ('i, 'b) canonical_row list \<Rightarrow> int \<Rightarrow> ('i, 'b) sku_row list" where
  "sku_merged cfg raw n4 =
     map (\<lambda>s.
       let rev_4w = (case map_of (sku_prev cfg raw n4) (item_id s) of None \<Rightarrow> None | Some v \<Rightarrow> v)
       in \<lparr>item_id = item_id s, brand_name = brand_name s, title = title s, rating = rating s,
            rating_count = rating_count s, revenue_latest = revenue_latest s,
            revenue_4w = rev_4w, growth_pct = sku_growth (revenue_latest s) rev_4w\<rparr>)
       (sku_latest cfg raw)"

text \<open>
  \<^verbatim>\<open>
  high_scaling = sku_merged[
      (sku_merged["growth_pct"] > growth_thresh) & (sku_merged["rating"] >= rating_thresh)]
  high_scaling_count = len(high_scaling)
  high_scaling_rev = high_scaling["revenue_latest"].sum()
  avg_rating = latest["rating"].mean() if len(latest) else 0
  \<close>
\<close>

definition high_scaling ::
  "('i::linorder, 'b::linorder) filters \<Rightarrow> ('i, 'b) canonical_row list \<Rightarrow> int \<Rightarrow> ('i, 'b) sku_row list" where
  "high_scaling cfg raw n4 =
     filter (\<lambda>s. nan_gt (growth_pct s) (real_of_int (growth_thresh cfg))
                \<and> nan_ge (rating s) (rating_thresh cfg))
       (sku_merged cfg raw n4)"

definition high_scaling_count ::
  "('i::linorder, 'b::linorder) filters \<Rightarrow> ('i, 'b) canonical_row list \<Rightarrow> int \<Rightarrow> nat" where
  "high_scaling_count cfg raw n4 = length (high_scaling cfg raw n4)"

definition high_scaling_rev ::
  "('i::linorder, 'b::linorder) filters \<Rightarrow> ('i, 'b) canonical_row list \<Rightarrow> int \<Rightarrow> real" where
  "high_scaling_rev cfg raw n4 = pd_sum (map revenue_latest (high_scaling cfg raw n4))"

definition avg_rating ::
  "('i::linorder, 'b::linorder) filters \<Rightarrow> ('i, 'b) canonical_row list \<Rightarrow> real option" where
  "avg_rating cfg raw =
     (if length (latest cfg raw) \<noteq> 0 then pd_mean (map rating (latest cfg raw)) else Some 0)"

text \<open>
  \<^verbatim>\<open>k6.metric("Avg Portfolio Rating", f"{avg_rating:.2f}" if avg_rating else "N/A")\<close>:
  zero is false, \<^verbatim>\<open>nan\<close> is true.
\<close>

datatype metric_text = NotAvailable | Formatted "real option"

definition avg_rating_text :: "real option \<Rightarrow> metric_text" where
  "avg_rating_text v = (if v = Some 0 then NotAvailable else Formatted v)"

subsection \<open>The views of the tabs\<close>

text \<open>
  \<^verbatim>\<open>
  scatter_data = sku_merged.dropna(subset=["growth_pct"]).copy()
  scatter_data["risk_label"] = scatter_data.apply(
      lambda r: "At Risk" if r["rating"] < rating_thresh and r["rating_count"] > count_thresh
      else ("High-Scaling" if r["growth_pct"] > growth_thresh and r["rating"] >= rating_thresh
            else "Stable"), axis=1)
  brand_rev = latest.groupby("brand_name")["revenue"].sum().reset_index()
  declining = sku_merged[sku_merged["growth_pct"] < 0].sort_values("growth_pct")
  \<close>
  The two \<^verbatim>\<open>sort_values\<close> calls on one column only reorder rows (pandas does not fix
  the order of rows with equal keys there); \<open>brand_rev\<close> and \<open>declining\<close> are the
  frames before that sort.
\<close>

datatype label = AtRisk | HighScaling | Stable

definition risk_label :: "('i, 'b) filters \<Rightarrow> ('i, 'b) sku_row \<Rightarrow> label" where
  "risk_label cfg r =
     (if nan_lt (rating r) (rating_thresh cfg) \<and> nan_gt (rating_count r) (count_thresh cfg)
      then AtRisk
      else if nan_gt (growth_pct r) (real_of_int (growth_thresh cfg))
              \<and> nan_ge (rating r) (rating_thresh cfg)
      then HighScaling
      else Stable)"

definition scatter_data ::
  "('i::linorder, 'b::linorder) filters \<Rightarrow> ('i, 'b) canonical_row list \<Rightarrow> int \<Rightarrow>
   (('i, 'b) sku_row \<times> label) list" where
  "scatter_data cfg raw n4 =
     map (\<lambda>r. (r, risk_label cfg r)) (filter (\<lambda>r. growth_pct r \<noteq> None) (sku_merged cfg raw n4))"

definition brand_rev ::
  "('i::linorder, 'b::linorder) filters \<Rightarrow> ('i, 'b) canonical_row list \<Rightarrow> ('b \<times> real) list" where
  "brand_rev cfg raw =
     map (\<lambda>b. (b, pd_sum (map revenue (filter (\<lambda>r. brand_name r = b) (latest cfg raw)))))
       (sort (unique (map brand_name (latest cfg raw))))"

definition declining ::
  "('i::linorder, 'b::linorder) filters \<Rightarrow> ('i, 'b) canonical_row list \<Rightarrow> int \<Rightarrow> ('i, 'b) sku_row list" where
  "declining cfg raw n4 = filter (\<lambda>s. nan_lt (growth_pct s) 0) (sku_merged cfg raw n4)"

subsection \<open>The script, from the filters to the KPI row\<close>

text \<open>
  The six metrics \<^verbatim>\<open>k1\<close> to \<^verbatim>\<open>k6\<close> before formatting. The script stops when the
  start date is after the end date (\<^verbatim>\<open>st.stop()\<close>), and an exception ends it where
  it is raised.
\<close>

record kpi_row =
  k1 :: real
  k2 :: real
  k3 :: real
  k4 :: nat
  k5 :: real
  k6 :: metric_text

definition dashboard ::
  "('i::linorder, 'b::linorder) filters \<Rightarrow> ('i, 'b) canonical_row list \<Rightarrow> pyerror + kpi_row" where
  "dashboard cfg raw =
     (if date_start cfg > date_end cfg then Inl StopExecution
      else (case nearest_4w cfg raw of
              Inl e \<Rightarrow> Inl e
            | Inr n4 \<Rightarrow>
                Inr \<lparr>k1 = total_rev_latest cfg raw,
                     k2 = portfolio_growth_pct cfg raw n4,
                     k3 = rev_at_risk cfg raw,
                     k4 = high_scaling_count cfg raw n4,
                     k5 = high_scaling_rev cfg raw n4,
                     k6 = avg_rating_text (avg_rating cfg raw)\<rparr>))"

subsection \<open>An example table and filter settings\<close>

text \<open>
  Four items over two dates, 28 days apart. Item 1 grows by 50 percent with a good
  rating; item 2 has no row at the earlier date; item 3 doubles but has a low rating
  and many reviews; item 4 has revenue 0 at both dates.
\<close>

definition example_table :: "(nat, nat) canonical_row list" where
  "example_table =
     [\<lparr>item_id = 1, brand_name = 1, title = None, rating = Some 4.5, rating_count = Some 300,
        date = Some 28, revenue = Some 100\<rparr>,
      \<lparr>item_id = 1, brand_name = 1, title = None, rating = Some 4.5, rating_count = Some 300,
        date = Some 56, revenue = Some 150\<rparr>,
      \<lparr>item_id = 2, brand_name = 2, title = None, rating = Some 3.5, rating_count = Some 300,
        date = Some 56, revenue = Some 50\<rparr>,
      \<lparr>item_id = 3, brand_name = 1, title = None, rating = Some 3.5, rating_count = Some 500,
        date = Some 28, revenue = Some 40\<rparr>,
      \<lparr>item_id = 3, brand_name = 1, title = None, rating = Some 3.5, rating_count = Some 500,
        date = Some 56, revenue = Some 80\<rparr>,
      \<lparr>item_id = 4, brand_name = 2, title = None, rating = Some 4.8, rating_count = Some 50,
        date = Some 28, revenue = Some 0\<rparr>,
      \<lparr>item_id = 4, brand_name = 2, title = None, rating = Some 4.8, rating_count = Some 50,
        date = Some 56, revenue = Some 0\<rparr>]"

text \<open>
  The same table with variant rows: the row of item 1 at date 28 once more, its row at
  date 56 twice more, and the row of item 3 at date 56 once more, each with the revenue
  of the item's first row.
\<close>

definition variant_table :: "(nat, nat) canonical_row list" where
  "variant_table =
     [example_table ! 0,
      \<lparr>item_id = 1, brand_name = 1, title = Some ''variant B'', rating = Some 4.5,
        rating_count = Some 300, date = Some 28, revenue = Some 100\<rparr>,
      example_table ! 1,
      \<lparr>item_id = 1, brand_name = 1, title = Some ''variant B'', rating = Some 4.5,
        rating_count = Some 300, date = Some 56, revenue = Some 150\<rparr>,
      \<lparr>item_id = 1, brand_name = 1, title = Some ''variant C'', rating = Some 4.5,
        rating_count = Some 300, date = Some 56, revenue = Some 150\<rparr>,
      example_table ! 2, example_table ! 3, example_table ! 4,
      \<lparr>item_id = 3, brand_name = 1, title = Some ''variant B'', rating = Some 3.5,
        rating_count = Some 500, date = Some 56, revenue = Some 80\<rparr>,
      example_table ! 5, example_table ! 6]"

text \<open>
  A table sorted by item and date in which the dates 29 and 27 are both one day from
  the target \<open>56 - 28\<close>, and the later one comes first.
\<close>

definition tie_table :: "(nat, nat) canonical_row list" where
  "tie_table =
     [\<lparr>item_id = 1, brand_name = 1, title = None, rating = Some 4.5, rating_count = Some 300,
        date = Some 29, revenue = Some 100\<rparr>,
      \<lparr>item_id = 1, brand_name = 1, title = None, rating = Some 4.5, rating_count = Some 300,
        date = Some 56, revenue = Some 150\<rparr>,
      \<lparr>item_id = 2, brand_name = 2, title = None, rating = Some 3.5, rating_count = Some 300,
        date = Some 27, revenue = Some 50\<rparr>]"

text \<open>
  The default thresholds with every date selected; with brand 2 only; with item 2
  only; and with a date range, inside the table's range, that holds no sample.
\<close>

definition example_filters :: "(nat, nat) filters" where
  "example_filters =
     \<lparr>date_start = 0, date_end = 60, sel_brands = [], sel_skus = [],
       rating_thresh = 4, count_thresh = 200, growth_thresh = 20\<rparr>"

definition brand_filters :: "(nat, nat) filters" where
  "brand_filters = example_filters\<lparr>sel_brands := [2]\<rparr>"

definition item_filters :: "(nat, nat) filters" where
  "item_filters = example_filters\<lparr>sel_skus := [2]\<rparr>"

definition gap_filters :: "(nat, nat) filters" where
  "gap_filters = example_filters\<lparr>date_start := 30, date_end := 50\<rparr>"

section \<open>Properties of the decoder\<close>

lemma safe_parse_json_csv_cell:
  assumes "csv_cell raw"
    and "\<And>s e. raw = PStr s \<Longrightarrow> json_loads L s = Inl e \<Longrightarrow> except_clause e"
  shows "\<exists>v. safe_parse_json L raw = Inr v"
  using assms
  by (cases raw)
     (auto simp: safe_parse_json_def csv_cell_def isinstance_dict_def isinstance_list_def
        pd_isna_def py_bool_def checknull_def split: sum.splits)

lemma decoder_returns_csv_cell:
  assumes "csv_cell raw"
    and "\<And>s e. raw = PStr s \<Longrightarrow> json_loads L s = Inl e \<Longrightarrow> except_clause e"
  shows "decoder_returns L raw"
proof -
  from assms have "\<exists>v. safe_parse_json L raw = Inr v"
    by (rule safe_parse_json_csv_cell)
  then show ?thesis by (auto simp: decoder_returns_def)
qed

lemma safe_parse_json_uncaught:
  "json_loads L s = Inl e \<Longrightarrow> \<not> except_clause e \<Longrightarrow> safe_parse_json L (PStr s) = Inl e"
  by (simp add: safe_parse_json_def pd_isna_def py_bool_def checknull_def
        isinstance_dict_def isinstance_list_def)

lemma safe_parse_json_missing:
  "safe_parse_json L PNone = Inr PNone" "safe_parse_json L PNaN = Inr PNone"
  by (simp_all add: safe_parse_json_def pd_isna_def py_bool_def checknull_def)

lemma safe_parse_json_wrong_type:
  "safe_parse_json L (PInt n) = Inr PNone" "safe_parse_json L (PFloat x) = Inr PNone"
  "safe_parse_json L (PBool b) = Inr PNone"
  by (simp_all add: safe_parse_json_def pd_isna_def py_bool_def checknull_def
        isinstance_dict_def isinstance_list_def)

lemma safe_parse_json_malformed:
  "json_loads L s = Inl JSONDecodeError \<Longrightarrow> safe_parse_json L (PStr s) = Inr PNone"
  by (simp add: safe_parse_json_def pd_isna_def py_bool_def checknull_def
        isinstance_dict_def isinstance_list_def except_clause_def)

lemma safe_parse_json_dict: "safe_parse_json L (PDict d) = Inr (PDict d)"
  by (simp add: safe_parse_json_def pd_isna_def py_bool_def checknull_def isinstance_dict_def)

lemma safe_parse_json_singleton_missing: "safe_parse_json L (PList [PNone]) = Inr PNone"
  by (simp add: safe_parse_json_def pd_isna_def py_bool_def checknull_def)

text \<open>
  C8. The claim: the decoder never raises, and a sequence that is already decoded is
  returned as it is. On a list of two mappings, the shape of a decoded history, the
  test \<^verbatim>\<open>if pd.isna(raw)\<close> of line 8 asks for the truth value of a two-element array
  and raises \<^verbatim>\<open>ValueError\<close>, before line 10 can return the list.
\<close>

theorem safe_parse_json_list_raises:
  "safe_parse_json L (PList [PDict a, PDict b]) = Inl ValueError"
  by (simp add: safe_parse_json_def pd_isna_def py_bool_def checknull_def)

section \<open>Properties of the flattener\<close>

lemma revenue_entries_eq:
  "revenue_entries i records es =
     records @ map (\<lambda>entry. \<lparr>item_id = i, r_date = dict_get entry ''date'',
                              r_revenue = dict_get entry ''avg_monthly_revenue''\<rparr>)
                 (filter isinstance_dict es)"
  by (induction es arbitrary: records) auto

lemma price_entries_eq:
  "price_entries i records es =
     records @ map (\<lambda>entry. \<lparr>item_id = i, p_date = dict_get entry ''date'',
                              p_price = dict_get entry ''value''\<rparr>)
                 (filter isinstance_dict es)"
  by (induction es arbitrary: records) auto

lemma revenue_rows_loop_eq:
  "\<forall>row \<in> set df. decoder_returns L (monthly_revenue_history row) \<Longrightarrow>
   revenue_rows_loop L records df = Inr (records @ concat (map (revenue_rows_of L) df))"
proof (induction df arbitrary: records)
  case Nil
  then show ?case by simp
next
  case (Cons row df)
  then obtain v where v: "safe_parse_json L (monthly_revenue_history row) = Inr v"
    by (auto simp: decoder_returns_def split: sum.splits)
  from Cons have IH:
    "\<And>records. revenue_rows_loop L records df = Inr (records @ concat (map (revenue_rows_of L) df))"
    by simp
  have row: "revenue_rows_of L row =
      (case v of
         PList entries \<Rightarrow>
           map (\<lambda>entry. \<lparr>item_id = item_id row, r_date = dict_get entry ''date'',
                          r_revenue = dict_get entry ''avg_monthly_revenue''\<rparr>)
               (filter isinstance_dict entries)
       | _ \<Rightarrow> [])"
    by (simp add: revenue_rows_of_def v)
  show ?case
    by (cases v) (simp_all add: v IH row isinstance_list_def revenue_entries_eq)
qed

lemma price_rows_loop_eq:
  "\<forall>row \<in> set df. decoder_returns L (promotion_history row) \<Longrightarrow>
   price_rows_loop L records df = Inr (records @ concat (map (price_rows_of L) df))"
proof (induction df arbitrary: records)
  case Nil
  then show ?case by simp
next
  case (Cons row df)
  then obtain v where v: "safe_parse_json L (promotion_history row) = Inr v"
    by (auto simp: decoder_returns_def split: sum.splits)
  from Cons have IH:
    "\<And>records. price_rows_loop L records df = Inr (records @ concat (map (price_rows_of L) df))"
    by simp
  have row: "price_rows_of L row =
      (case v of
         PList entries \<Rightarrow>
           map (\<lambda>entry. \<lparr>item_id = item_id row, p_date = dict_get entry ''date'',
                          p_price = dict_get entry ''value''\<rparr>)
               (filter isinstance_dict entries)
       | _ \<Rightarrow> [])"
    by (simp add: price_rows_of_def v)
  show ?case
    by (cases v) (simp_all add: v IH row isinstance_list_def price_entries_eq)
qed

lemma revenue_rows_of_not_sequence:
  "\<forall>entries. safe_parse_json L (monthly_revenue_history row) \<noteq> Inr (PList entries) \<Longrightarrow>
   revenue_rows_of L row = []"
  by (auto simp: revenue_rows_of_def split: sum.splits pyval.splits)

lemma price_rows_of_not_sequence:
  "\<forall>entries. safe_parse_json L (promotion_history row) \<noteq> Inr (PList entries) \<Longrightarrow>
   price_rows_of L row = []"
  by (auto simp: price_rows_of_def split: sum.splits pyval.splits)

text \<open>
  Over a raw table on whose payloads the decoder returns, each flattener returns the
  concatenation, in record order, of what each record contributes by itself. A record
  whose payload does not decode to a sequence contributes no row; a record whose
  payload decodes to a sequence contributes exactly one row per element that is a
  mapping, with the item identifier, the \<^verbatim>\<open>date\<close> field and the renamed value field,
  and the other elements are passed over.
\<close>

lemma flatten_history_per_record:
  assumes "\<forall>row \<in> set df. decoder_returns L (monthly_revenue_history row)
                        \<and> decoder_returns L (promotion_history row)"
  shows "flatten_revenue_history L df = Inr (concat (map (revenue_rows_of L) df))
       \<and> flatten_promotion_history L df = Inr (concat (map (price_rows_of L) df))
       \<and> (\<forall>row. (\<forall>entries. safe_parse_json L (monthly_revenue_history row) \<noteq> Inr (PList entries))
                  \<longrightarrow> revenue_rows_of L row = [])
       \<and> (\<forall>row. (\<forall>entries. safe_parse_json L (promotion_history row) \<noteq> Inr (PList entries))
                  \<longrightarrow> price_rows_of L row = [])
       \<and> (\<forall>row entries. safe_parse_json L (monthly_revenue_history row) = Inr (PList entries)
                  \<longrightarrow> revenue_rows_of L row =
                       map (\<lambda>entry. \<lparr>item_id = item_id row, r_date = dict_get entry ''date'',
                                      r_revenue = dict_get entry ''avg_monthly_revenue''\<rparr>)
                           (filter isinstance_dict entries))
       \<and> (\<forall>row entries. safe_parse_json L (promotion_history row) = Inr (PList entries)
                  \<longrightarrow> price_rows_of L row =
                       map (\<lambda>entry. \<lparr>item_id = item_id row, p_date = dict_get entry ''date'',
                                      p_price = dict_get entry ''value''\<rparr>)
                           (filter isinstance_dict entries))"
proof -
  have "flatten_revenue_history L df = Inr (concat (map (revenue_rows_of L) df))"
    using assms revenue_rows_loop_eq [of df L "[]"] by (simp add: flatten_revenue_history_def)
  moreover have "flatten_promotion_history L df = Inr (concat (map (price_rows_of L) df))"
    using assms price_rows_loop_eq [of df L "[]"] by (simp add: flatten_promotion_history_def)
  moreover have "\<forall>row. (\<forall>entries. safe_parse_json L (monthly_revenue_history row) \<noteq> Inr (PList entries))
                  \<longrightarrow> revenue_rows_of L row = []"
    using revenue_rows_of_not_sequence by blast
  moreover have "\<forall>row. (\<forall>entries. safe_parse_json L (promotion_history row) \<noteq> Inr (PList entries))
                  \<longrightarrow> price_rows_of L row = []"
    using price_rows_of_not_sequence by blast
  moreover have "\<forall>row entries. safe_parse_json L (monthly_revenue_history row) = Inr (PList entries)
                  \<longrightarrow> revenue_rows_of L row =
                       map (\<lambda>entry. \<lparr>item_id = item_id row, r_date = dict_get entry ''date'',
                                      r_revenue = dict_get entry ''avg_monthly_revenue''\<rparr>)
                           (filter isinstance_dict entries)"
    by (simp add: revenue_rows_of_def)
  moreover have "\<forall>row entries. safe_parse_json L (promotion_history row) = Inr (PList entries)
                  \<longrightarrow> price_rows_of L row =
                       map (\<lambda>entry. \<lparr>item_id = item_id row, p_date = dict_get entry ''date'',
                                      p_price = dict_get entry ''value''\<rparr>)
                           (filter isinstance_dict entries)"
    by (simp add: price_rows_of_def)
  ultimately show ?thesis by blast
qed

lemma long_integer_text_neq: "length s \<noteq> 5000 \<Longrightarrow> s \<noteq> long_integer_text" "length s \<noteq> 5000 \<Longrightarrow> long_integer_text \<noteq> s"
  by (auto simp: long_integer_text_def)

lemma example_lib_loads:
  "json_loads example_lib long_integer_text = Inl ValueError"
  "json_loads example_lib ''[{\"date\": \"2024-01-05\", \"avg_monthly_revenue\": 120, \"value\": 9}, 7]''
     = Inr (PList [PDict [(''date'', PStr ''2024-01-05''), (''avg_monthly_revenue'', PInt 120),
                          (''value'', PInt 9)], PInt 7])"
  "json_loads example_lib ''{}'' = Inr (PDict [])"
  "json_loads example_lib ''oops'' = Inl JSONDecodeError"
  by (simp_all add: example_lib_def long_integer_text_neq)

lemma example_lib_decodes:
  "safe_parse_json example_lib
      (PStr ''[{\"date\": \"2024-01-05\", \"avg_monthly_revenue\": 120, \"value\": 9}, 7]'')
     = Inr (PList [PDict [(''date'', PStr ''2024-01-05''), (''avg_monthly_revenue'', PInt 120),
                          (''value'', PInt 9)], PInt 7])"
  "safe_parse_json example_lib (PStr ''oops'') = Inr PNone"
  "safe_parse_json example_lib (PStr ''{}'') = Inr (PDict [])"
  "safe_parse_json example_lib PNaN = Inr PNone"
  "safe_parse_json example_lib (PStr long_integer_text) = Inl ValueError"
  by (simp_all add: safe_parse_json_def pd_isna_def py_bool_def checknull_def
        isinstance_dict_def isinstance_list_def except_clause_def example_lib_loads)

lemma flatten_history_example:
  "flatten_revenue_history example_lib example_listings
     = Inr [\<lparr>item_id = 1, r_date = PStr ''2024-01-05'', r_revenue = PInt 120\<rparr>]
 \<and> flatten_promotion_history example_lib example_listings
     = Inr [\<lparr>item_id = 3, p_date = PStr ''2024-01-05'', p_price = PInt 9\<rparr>]"
proof -
  have h: "\<forall>row \<in> set example_listings. decoder_returns example_lib (monthly_revenue_history row)
                        \<and> decoder_returns example_lib (promotion_history row)"
    by (simp add: example_listings_def decoder_returns_def example_lib_decodes)
  from flatten_history_per_record [OF h]
  have a: "flatten_revenue_history example_lib example_listings
             = Inr (concat (map (revenue_rows_of example_lib) example_listings))"
    and b: "flatten_promotion_history example_lib example_listings
             = Inr (concat (map (price_rows_of example_lib) example_listings))"
    by blast+
  have c: "concat (map (revenue_rows_of example_lib) example_listings)
             = [\<lparr>item_id = 1, r_date = PStr ''2024-01-05'', r_revenue = PInt 120\<rparr>]"
    by (simp add: example_listings_def revenue_rows_of_def example_lib_decodes
          isinstance_dict_def dict_get_def)
  have d: "concat (map (price_rows_of example_lib) example_listings)
             = [\<lparr>item_id = 3, p_date = PStr ''2024-01-05'', p_price = PInt 9\<rparr>]"
    by (simp add: example_listings_def price_rows_of_def example_lib_decodes
          isinstance_dict_def dict_get_def)
  show ?thesis
    unfolding a b c d by simp
qed

lemma revenue_rows_loop_raises:
  assumes "\<forall>r \<in> set before. decoder_returns L (monthly_revenue_history r)"
    and "safe_parse_json L (monthly_revenue_history row) = Inl e"
  shows "revenue_rows_loop L records (before @ row # rest) = Inl e"
  using assms(1)
proof (induction before arbitrary: records)
  case Nil
  then show ?case by (simp add: assms(2))
next
  case (Cons r before)
  then obtain v where v: "safe_parse_json L (monthly_revenue_history r) = Inr v"
    by (auto simp: decoder_returns_def split: sum.splits)
  from Cons have IH: "\<And>records. revenue_rows_loop L records (before @ row # rest) = Inl e"
    by simp
  show ?case
    by (cases v) (simp_all add: v IH isinstance_list_def)
qed

lemma price_rows_loop_raises:
  assumes "\<forall>r \<in> set before. decoder_returns L (promotion_history r)"
    and "safe_parse_json L (promotion_history row) = Inl e"
  shows "price_rows_loop L records (before @ row # rest) = Inl e"
  using assms(1)
proof (induction before arbitrary: records)
  case Nil
  then show ?case by (simp add: assms(2))
next
  case (Cons r before)
  then obtain v where v: "safe_parse_json L (promotion_history r) = Inr v"
    by (auto simp: decoder_returns_def split: sum.splits)
  from Cons have IH: "\<And>records. price_rows_loop L records (before @ row # rest) = Inl e"
    by simp
  show ?case
    by (cases v) (simp_all add: v IH isinstance_list_def)
qed

text \<open>
  C9. The claim: a record whose payload fails to decode contributes no row and the rows
  of the other records are unchanged. That holds when the decoder returns
  (\<open>flatten_history_per_record\<close>). When \<^verbatim>\<open>json.loads\<close> fails on a text cell with an
  exception other than the two of the \<^verbatim>\<open>except\<close> clause of line 14, the decoder raises
  it, and so does each flattener at that record: no row is returned for any record.
\<close>

theorem flatten_uncaught_decode_error:
  assumes "json_loads L s = Inl e" and "\<not> except_clause e"
  shows "safe_parse_json L (PStr s) = Inl e
    \<and> (monthly_revenue_history row = PStr s
          \<and> (\<forall>r \<in> set before. decoder_returns L (monthly_revenue_history r))
        \<longrightarrow> flatten_revenue_history L (before @ row # rest) = Inl e)
    \<and> (promotion_history row = PStr s
          \<and> (\<forall>r \<in> set before. decoder_returns L (promotion_history r))
        \<longrightarrow> flatten_promotion_history L (before @ row # rest) = Inl e)"
proof -
  have raise: "safe_parse_json L (PStr s) = Inl e"
    using assms by (rule safe_parse_json_uncaught)
  have "flatten_revenue_history L (before @ row # rest) = Inl e"
    if "monthly_revenue_history row = PStr s"
      and "\<forall>r \<in> set before. decoder_returns L (monthly_revenue_history r)"
    unfolding flatten_revenue_history_def
    using that(2) by (rule revenue_rows_loop_raises) (simp add: that(1) raise)
  moreover have "flatten_promotion_history L (before @ row # rest) = Inl e"
    if "promotion_history row = PStr s"
      and "\<forall>r \<in> set before. decoder_returns L (promotion_history r)"
    unfolding flatten_promotion_history_def
    using that(2) by (rule price_rows_loop_raises) (simp add: that(1) raise)
  ultimately show ?thesis using raise by blast
qed

theorem flatten_uncaught_decode_error_witness:
  "json_loads example_lib long_integer_text = Inl ValueError
 \<and> \<not> except_clause ValueError
 \<and> flatten_revenue_history example_lib
       (take 1 example_listings
        @ \<lparr>item_id = 9, monthly_revenue_history = PStr long_integer_text,
             promotion_history = PStr long_integer_text\<rparr>
        # drop 1 example_listings) = Inl ValueError
 \<and> flatten_promotion_history example_lib
       (take 1 example_listings
        @ \<lparr>item_id = 9, monthly_revenue_history = PStr long_integer_text,
             promotion_history = PStr long_integer_text\<rparr>
        # drop 1 example_listings) = Inl ValueError
 \<and> flatten_revenue_history example_lib (take 1 example_listings @ drop 1 example_listings)
       = Inr [\<lparr>item_id = 1, r_date = PStr ''2024-01-05'', r_revenue = PInt 120\<rparr>]"
proof -
  let ?bad = "\<lparr>item_id = 9::nat, monthly_revenue_history = PStr long_integer_text,
             promotion_history = PStr long_integer_text\<rparr>"
  have a: "json_loads example_lib long_integer_text = Inl ValueError"
    by (rule example_lib_loads)
  have b: "\<not> except_clause ValueError"
    by (simp add: except_clause_def)
  have c: "\<forall>r \<in> set (take 1 example_listings). decoder_returns example_lib (monthly_revenue_history r)"
    "\<forall>r \<in> set (take 1 example_listings). decoder_returns example_lib (promotion_history r)"
    by (simp_all add: example_listings_def decoder_returns_def example_lib_decodes)
  have d: "monthly_revenue_history ?bad = PStr long_integer_text"
    "promotion_history ?bad = PStr long_integer_text"
    by simp_all
  from flatten_uncaught_decode_error [OF a b, of ?bad "take 1 example_listings" "drop 1 example_listings"] c d
  have "flatten_revenue_history example_lib (take 1 example_listings @ ?bad # drop 1 example_listings)
          = Inl ValueError"
    and "flatten_promotion_history example_lib (take 1 example_listings @ ?bad # drop 1 example_listings)
          = Inl ValueError"
    by blast+
  moreover have "take 1 example_listings @ drop 1 example_listings = example_listings"
    by simp
  ultimately show ?thesis
    using a b flatten_history_example by simp
qed

section \<open>Properties of the reconciler\<close>

subsection \<open>The join\<close>

lemma keys_merge_left:
  "(\<lambda>r. (item_id r, m_date r)) ` set (merge_left revenue_df promotion_df)
     = (\<lambda>r. (item_id r, r_date r)) ` set revenue_df"
proof -
  define f where "f = (\<lambda>l :: ('a, int option) revenue_record.
      case filter (\<lambda>r. item_id r = item_id l \<and> p_date r = r_date l) promotion_df of
         [] \<Rightarrow> [\<lparr>item_id = item_id l, m_date = r_date l, m_revenue = r_revenue l, m_price = PNaN\<rparr>]
       | ms \<Rightarrow> map (\<lambda>r. \<lparr>item_id = item_id l, m_date = r_date l, m_revenue = r_revenue l,
                          m_price = p_price r\<rparr>) ms)"
  have one: "\<And>l. (\<lambda>r. (item_id r, m_date r)) ` set (f l) = {(item_id l, r_date l)}"
    unfolding f_def by (auto split: list.splits)
  have "merge_left revenue_df promotion_df = concat (map f revenue_df)"
    by (simp add: merge_left_def f_def)
  then have "(\<lambda>r. (item_id r, m_date r)) ` set (merge_left revenue_df promotion_df)
      = (\<Union>l \<in> set revenue_df. (\<lambda>r. (item_id r, m_date r)) ` set (f l))"
    by (simp add: image_UN)
  also have "\<dots> = (\<lambda>r. (item_id r, r_date r)) ` set revenue_df"
    unfolding one by blast
  finally show ?thesis .
qed


lemma ffill_loop_keys:
  "map (\<lambda>r. (item_id r, m_date r, m_revenue r)) (ffill_loop c rs)
     = map (\<lambda>r. (item_id r, m_date r, m_revenue r)) rs"
  by (induction rs arbitrary: c) (auto split: option.splits)

lemma keys_groupby_ffill_price:
  "(\<lambda>r. (item_id r, m_date r)) ` set (groupby_ffill_price df) = (\<lambda>r. (item_id r, m_date r)) ` set df"
proof -
  have "map (\<lambda>r. (item_id r, m_date r)) (groupby_ffill_price df) = map (\<lambda>r. (item_id r, m_date r)) df"
    using ffill_loop_keys [of Map.empty df, THEN arg_cong, of "map (\<lambda>(i, d, v). (i, d))"]
    by (simp add: groupby_ffill_price_def comp_def)
  then show ?thesis
    by (metis set_map)
qed

lemma reconcile_returns:
  "revenue_df \<noteq> [] \<Longrightarrow> promotion_df \<noteq> [] \<Longrightarrow>
   reconcile revenue_df promotion_df
     = Inr (groupby_ffill_price (sort_values (merge_left revenue_df promotion_df)))"
  by (simp add: reconcile_def pd_merge_def)


subsection \<open>The fill\<close>









lemma example_sorted:
  "sort_values (merge_left example_revenue example_promotion) =
     [\<lparr>item_id = 1, m_date = Some 10, m_revenue = PFloat 100, m_price = PFloat 5\<rparr>,
      \<lparr>item_id = 1, m_date = Some 20, m_revenue = PFloat 110, m_price = PNaN\<rparr>,
      \<lparr>item_id = 1, m_date = Some 30, m_revenue = PFloat 120, m_price = PFloat 9\<rparr>,
      \<lparr>item_id = 2, m_date = Some 12, m_revenue = PFloat 40, m_price = PNaN\<rparr>,
      \<lparr>item_id = 2, m_date = Some 15, m_revenue = PFloat 45, m_price = PFloat 7\<rparr>,
      \<lparr>item_id = 2, m_date = Some 20, m_revenue = PNone, m_price = PNaN\<rparr>]"
  by (simp add: merge_left_def sort_values_def na_last_def example_revenue_def example_promotion_def)

lemma example_reconciled:
  "reconcile example_revenue example_promotion =
     Inr [\<lparr>item_id = 1, m_date = Some 10, m_revenue = PFloat 100, m_price = PFloat 5\<rparr>,
          \<lparr>item_id = 1, m_date = Some 20, m_revenue = PFloat 110, m_price = PFloat 5\<rparr>,
          \<lparr>item_id = 1, m_date = Some 30, m_revenue = PFloat 120, m_price = PFloat 9\<rparr>,
          \<lparr>item_id = 2, m_date = Some 12, m_revenue = PFloat 40, m_price = PNaN\<rparr>,
          \<lparr>item_id = 2, m_date = Some 15, m_revenue = PFloat 45, m_price = PFloat 7\<rparr>,
          \<lparr>item_id = 2, m_date = Some 20, m_revenue = PNone, m_price = PFloat 7\<rparr>]"
proof -
  have "example_revenue \<noteq> []" "example_promotion \<noteq> []"
    by (simp_all add: example_revenue_def example_promotion_def)
  then show ?thesis
    by (simp add: reconcile_returns example_sorted groupby_ffill_price_def checknull_def)
qed

text \<open>
  C1, as the code has it: a left join. When both series have rows, the reconciler
  returns, and the (item identifier, date) pairs of its output are exactly those of the
  revenue series: every revenue date of an item is a row, and a date that only the price
  series has for the item is not.
\<close>

theorem reconcile_left_join:
  assumes "revenue_df \<noteq> []" and "promotion_df \<noteq> []"
  shows "\<exists>out. reconcile revenue_df promotion_df = Inr out
       \<and> (\<lambda>r. (item_id r, m_date r)) ` set out = (\<lambda>r. (item_id r, r_date r)) ` set revenue_df
       \<and> (\<forall>p \<in> set promotion_df.
             (item_id p, p_date p) \<notin> (\<lambda>r. (item_id r, r_date r)) ` set revenue_df
             \<longrightarrow> (item_id p, p_date p) \<notin> (\<lambda>r. (item_id r, m_date r)) ` set out)"
proof -
  let ?out = "groupby_ffill_price (sort_values (merge_left revenue_df promotion_df))"
  have "(\<lambda>r. (item_id r, m_date r)) ` set ?out = (\<lambda>r. (item_id r, r_date r)) ` set revenue_df"
    by (simp add: keys_groupby_ffill_price sort_values_def keys_merge_left)
  with reconcile_returns [OF assms] show ?thesis by auto
qed

theorem reconcile_left_join_witness:
  "example_revenue \<noteq> [] \<and> example_promotion \<noteq> []
 \<and> (\<exists>out. reconcile example_revenue example_promotion = Inr out
        \<and> (\<lambda>r. (item_id r, m_date r)) ` set out
            = {(1, Some 10), (1, Some 20), (1, Some 30), (2, Some 12), (2, Some 15), (2, Some 20)})"
proof -
  have a: "example_revenue \<noteq> []" and b: "example_promotion \<noteq> []"
    by (simp_all add: example_revenue_def example_promotion_def)
  have "(\<lambda>r. (item_id r, r_date r)) ` set example_revenue
      = {(1, Some 10), (1, Some 20), (1, Some 30), (2, Some 12), (2, Some 15), (2, Some 20)}"
    by (auto simp: example_revenue_def)
  with reconcile_left_join [OF a b] a b show ?thesis by auto
qed

text \<open>
  The claim says that every date present in either series survives. In the example
  item 1 has a price sample on day 25 and no revenue sample; the output has no row for
  it.
\<close>

theorem reconcile_outer_join_counterexample:
  "(1, Some 25) \<in> (\<lambda>p. (item_id p, p_date p)) ` set example_promotion
 \<and> (\<exists>out. reconcile example_revenue example_promotion = Inr out
        \<and> map (\<lambda>r. (item_id r, m_date r)) out
            = [(1, Some 10), (1, Some 20), (1, Some 30), (2, Some 12), (2, Some 15), (2, Some 20)]
        \<and> (1, Some 25) \<notin> (\<lambda>r. (item_id r, m_date r)) ` set out)"
  by (simp add: example_reconciled) (simp add: example_promotion_def)







section \<open>Properties of the dashboard\<close>

subsection \<open>Deduplication\<close>

lemma set_keep_first: "set (keep_first key seen rs) \<subseteq> set rs"
  by (induction rs arbitrary: seen) auto

lemma keys_keep_first: "key ` set (keep_first key seen rs) = key ` set rs - set seen"
  by (induction rs arbitrary: seen) auto

lemma distinct_keep_first: "distinct (map key (keep_first key seen rs))"
proof (induction rs arbitrary: seen)
  case Nil
  then show ?case by simp
next
  case (Cons r rs)
  have "key r \<notin> key ` set (keep_first key (key r # seen) rs)"
    by (simp add: keys_keep_first)
  with Cons show ?case by simp
qed

lemma keep_first_unseen: "r \<in> set (keep_first key seen rs) \<Longrightarrow> key r \<notin> set seen"
  using keys_keep_first [of key seen rs] by blast

lemma keep_first_find:
  "r \<in> set (keep_first key seen rs) \<Longrightarrow> List.find (\<lambda>x. key x = key r) rs = Some r"
proof (induction rs arbitrary: seen)
  case Nil
  then show ?case by simp
next
  case (Cons a rs)
  show ?case
  proof (cases "key a = key r")
    case True
    have "key a \<notin> set seen"
      using keep_first_unseen [OF Cons.prems] True by simp
    moreover have "r \<notin> set (keep_first key (key a # seen) rs)"
      using keep_first_unseen [of r key "key a # seen" rs] True by auto
    ultimately have "a = r"
      using Cons.prems by simp
    with True show ?thesis by simp
  next
    case False
    with Cons show ?thesis by (auto split: if_splits)
  qed
qed

lemma keep_first_variant:
  "key v \<in> set seen \<union> key ` set xs \<Longrightarrow>
   keep_first key seen (xs @ v # ys) = keep_first key seen (xs @ ys)"
  by (induction xs arbitrary: seen) auto

lemma distinct_unique: "distinct (unique xs)"
  using distinct_keep_first [of "\<lambda>x. x" "[]" xs] by (simp add: unique_def)

lemma set_unique: "set (unique xs) = set xs"
  using keys_keep_first [of "\<lambda>x. x" "[]" xs] by (simp add: unique_def)

lemma unique_nonempty: "xs \<noteq> [] \<Longrightarrow> unique xs \<noteq> []"
  using set_unique [of xs] by (metis set_empty)

lemma distinct_drop_duplicates: "distinct (map (\<lambda>r. (item_id r, date r)) (drop_duplicates df))"
  using distinct_keep_first [of "\<lambda>r. (item_id r, date r)" "[]" df] by (simp add: drop_duplicates_def)

lemma distinct_item_df: "distinct (map (\<lambda>r. (item_id r, date r)) (item_df cfg raw))"
  by (simp add: item_df_def distinct_map_filter distinct_drop_duplicates)

lemma distinct_filt: "distinct (map (\<lambda>r. (item_id r, date r)) (filt cfg raw))"
  by (simp add: filt_def distinct_map_filter distinct_item_df)

lemma distinct_latest: "distinct (map (\<lambda>r. (item_id r, date r)) (latest cfg raw))"
  by (simp add: latest_def distinct_map_filter distinct_filt)

lemma distinct_prev: "distinct (map (\<lambda>r. (item_id r, date r)) (prev cfg raw n4))"
  by (simp add: prev_def distinct_map_filter distinct_filt)

lemma distinct_risky: "distinct (map (\<lambda>r. (item_id r, date r)) (risky cfg raw))"
  by (simp add: risky_def distinct_map_filter distinct_latest)

lemma item_df_variant:
  "(item_id v, date v) \<in> (\<lambda>r. (item_id r, date r)) ` set xs \<Longrightarrow>
   item_df cfg (xs @ v # ys) = item_df cfg (xs @ ys)"
  using keep_first_variant [of "\<lambda>r. (item_id r, date r)" v "[]" xs ys]
  by (simp add: item_df_def drop_duplicates_def)

lemma item_df_first_row:
  "r \<in> set (item_df cfg raw) \<Longrightarrow>
   List.find (\<lambda>x. (item_id x, date x) = (item_id r, date r)) raw = Some r"
  using keep_first_find [of r "\<lambda>r. (item_id r, date r)" "[]" raw]
  by (simp add: item_df_def drop_duplicates_def)

lemma latest_subset: "set (latest cfg raw) \<subseteq> set (item_df cfg raw)"
  by (auto simp: latest_def filt_def)

lemma prev_subset: "set (prev cfg raw n4) \<subseteq> set (item_df cfg raw)"
  by (auto simp: prev_def filt_def)

lemma pd_sum_Nil: "pd_sum [] = 0"
  by (simp add: pd_sum_def)

text \<open>
  The definitions that evaluate the snapshots and the KPIs on a concrete table.
\<close>

lemmas example_defs = example_table_def variant_table_def tie_table_def example_filters_def
  brand_filters_def item_filters_def gap_filters_def

lemmas snapshot_defs = nearest_4w_def FOUR_W_AGO_def LATEST_DATE_def item_df_def drop_duplicates_def
  in_date_range_def pd_max_def date_values_def unique_def py_min_def distance_to_def timedelta_lt_def
  List.map_filter_def filt_def active_brands_def all_brands_def active_skus_def all_skus_def
  latest_def prev_def date_eq_def

lemmas kpi_defs = total_rev_latest_def total_rev_4w_def portfolio_growth_pct_def pd_sum_def
  risky_def rev_at_risk_def sku_merged_def sku_latest_def sku_prev_def sku_growth_def Let_def
  high_scaling_def declining_def scatter_data_def risk_label_def nan_lt_def nan_gt_def nan_ge_def
  brand_rev_def

lemma keep_first_mem_iff:
  "r \<in> set (keep_first key seen rs) \<longleftrightarrow>
     key r \<notin> set seen \<and> List.find (\<lambda>x. key x = key r) rs = Some r"
proof
  assume "r \<in> set (keep_first key seen rs)"
  then show "key r \<notin> set seen \<and> List.find (\<lambda>x. key x = key r) rs = Some r"
    using keep_first_unseen keep_first_find by fast
next
  assume "key r \<notin> set seen \<and> List.find (\<lambda>x. key x = key r) rs = Some r"
  then show "r \<in> set (keep_first key seen rs)"
  proof (induction rs arbitrary: seen)
    case Nil
    then show ?case by simp
  next
    case (Cons a rs)
    show ?case
    proof (cases "key a = key r")
      case True
      with Cons.prems have "a = r" by simp
      with Cons.prems show ?thesis by simp
    next
      case False
      with Cons.prems have "key r \<notin> set (key a # seen)"
        and "key r \<notin> set seen"
        and "List.find (\<lambda>x. key x = key r) rs = Some r"
        by auto
      with Cons.IH [of "key a # seen"] Cons.IH [of seen] show ?thesis
        by simp
    qed
  qed
qed

lemma set_item_df:
  "set (item_df cfg raw) =
     {r. List.find (\<lambda>x. (item_id x, date x) = (item_id r, date r)) raw = Some r
         \<and> in_date_range cfg r}"
  using keep_first_mem_iff [of _ "\<lambda>r. (item_id r, date r)" "[]" raw]
  by (auto simp: item_df_def drop_duplicates_def)

lemma inj_on_item_df: "inj_on (\<lambda>r. (item_id r, date r)) (set (item_df cfg raw))"
  using distinct_item_df [of cfg raw] by (simp add: distinct_map)

lemma pd_sum_distinct:
  assumes "distinct (map (\<lambda>r. (item_id r, date r)) xs)"
  shows "pd_sum (map revenue xs) = (\<Sum>r \<in> set xs. case revenue r of None \<Rightarrow> 0 | Some x \<Rightarrow> x)"
proof -
  from assms have "distinct xs" by (simp add: distinct_map)
  then have "sum_list (map (\<lambda>r. case revenue r of None \<Rightarrow> 0 | Some x \<Rightarrow> x) xs)
      = (\<Sum>r \<in> set xs. case revenue r of None \<Rightarrow> 0 | Some x \<Rightarrow> x)"
    by (rule sum_list_distinct_conv_sum_set)
  then show ?thesis by (simp add: pd_sum_def comp_def)
qed

lemma brand_rev_keys:
  "map fst (brand_rev cfg raw) = sort (unique (map brand_name (latest cfg raw)))"
  by (simp add: brand_rev_def comp_def)

lemma brand_rev_entry:
  assumes "(b, v) \<in> set (brand_rev cfg raw)"
  shows "v = (\<Sum>r \<in> {r \<in> set (latest cfg raw). brand_name r = b}.
                case revenue r of None \<Rightarrow> 0 | Some x \<Rightarrow> x)"
proof -
  from assms have v: "v = pd_sum (map revenue (filter (\<lambda>r. brand_name r = b) (latest cfg raw)))"
    by (auto simp: brand_rev_def)
  have "distinct (map (\<lambda>r. (item_id r, date r)) (filter (\<lambda>r. brand_name r = b) (latest cfg raw)))"
    by (simp add: distinct_map_filter distinct_latest)
  from pd_sum_distinct [OF this] show ?thesis
    unfolding v by simp
qed

text \<open>
  C4. The latest and the reference snapshot are exactly the first rows of the canonical
  table for their (item identifier, date) that pass the filters, so each (item
  identifier, date) has one row there and no more; \<open>risky\<close> is the part of the latest
  snapshot that meets the At-Risk predicate. Total latest revenue, reference-period
  revenue and revenue at risk are the sums of revenue over the rows of these sets, and
  brand revenue has one entry per brand of the latest snapshot, the sum over the
  snapshot's rows of that brand: every (item identifier, date) of a snapshot is counted
  once. A further row with the key of an earlier row changes none of the aggregates.
\<close>

theorem revenue_counted_exactly_once:
  "set (latest cfg raw) =
     {r. List.find (\<lambda>x. (item_id x, date x) = (item_id r, date r)) raw = Some r
         \<and> in_date_range cfg r
         \<and> brand_name r \<in> set (active_brands cfg raw) \<and> item_id r \<in> set (active_skus cfg raw)
         \<and> date_eq (date r) (LATEST_DATE cfg raw)}
 \<and> set (prev cfg raw n4) =
     {r. List.find (\<lambda>x. (item_id x, date x) = (item_id r, date r)) raw = Some r
         \<and> in_date_range cfg r
         \<and> brand_name r \<in> set (active_brands cfg raw) \<and> item_id r \<in> set (active_skus cfg raw)
         \<and> date_eq (date r) (Some n4)}
 \<and> set (risky cfg raw) =
     {r \<in> set (latest cfg raw).
        nan_lt (rating r) (rating_thresh cfg) \<and> nan_gt (rating_count r) (count_thresh cfg)}
 \<and> inj_on (\<lambda>r. (item_id r, date r)) (set (latest cfg raw) \<union> set (prev cfg raw n4))
 \<and> total_rev_latest cfg raw
      = (\<Sum>r \<in> set (latest cfg raw). case revenue r of None \<Rightarrow> 0 | Some x \<Rightarrow> x)
 \<and> total_rev_4w cfg raw n4
      = (\<Sum>r \<in> set (prev cfg raw n4). case revenue r of None \<Rightarrow> 0 | Some x \<Rightarrow> x)
 \<and> rev_at_risk cfg raw
      = (\<Sum>r \<in> set (risky cfg raw). case revenue r of None \<Rightarrow> 0 | Some x \<Rightarrow> x)
 \<and> map fst (brand_rev cfg raw) = sort (unique (map brand_name (latest cfg raw)))
 \<and> (\<forall>(b, v) \<in> set (brand_rev cfg raw).
        v = (\<Sum>r \<in> {r \<in> set (latest cfg raw). brand_name r = b}.
               case revenue r of None \<Rightarrow> 0 | Some x \<Rightarrow> x))
 \<and> ((item_id v, date v) \<in> (\<lambda>r. (item_id r, date r)) ` set xs \<longrightarrow>
       total_rev_latest cfg (xs @ v # ys) = total_rev_latest cfg (xs @ ys)
     \<and> total_rev_4w cfg (xs @ v # ys) n4 = total_rev_4w cfg (xs @ ys) n4
     \<and> rev_at_risk cfg (xs @ v # ys) = rev_at_risk cfg (xs @ ys)
     \<and> brand_rev cfg (xs @ v # ys) = brand_rev cfg (xs @ ys))"
proof -
  have l: "set (latest cfg raw) =
     {r. List.find (\<lambda>x. (item_id x, date x) = (item_id r, date r)) raw = Some r
         \<and> in_date_range cfg r
         \<and> brand_name r \<in> set (active_brands cfg raw) \<and> item_id r \<in> set (active_skus cfg raw)
         \<and> date_eq (date r) (LATEST_DATE cfg raw)}"
    by (auto simp: latest_def filt_def set_item_df)
  have p: "set (prev cfg raw n4) =
     {r. List.find (\<lambda>x. (item_id x, date x) = (item_id r, date r)) raw = Some r
         \<and> in_date_range cfg r
         \<and> brand_name r \<in> set (active_brands cfg raw) \<and> item_id r \<in> set (active_skus cfg raw)
         \<and> date_eq (date r) (Some n4)}"
    by (auto simp: prev_def filt_def set_item_df)
  have r: "set (risky cfg raw) =
     {r \<in> set (latest cfg raw).
        nan_lt (rating r) (rating_thresh cfg) \<and> nan_gt (rating_count r) (count_thresh cfg)}"
    by (auto simp: risky_def)
  have i: "inj_on (\<lambda>r. (item_id r, date r)) (set (latest cfg raw) \<union> set (prev cfg raw n4))"
    using inj_on_item_df [of cfg raw] latest_subset [of cfg raw] prev_subset [of cfg raw n4]
    by (rule_tac inj_on_subset) auto
  have s1: "total_rev_latest cfg raw
      = (\<Sum>r \<in> set (latest cfg raw). case revenue r of None \<Rightarrow> 0 | Some x \<Rightarrow> x)"
    unfolding total_rev_latest_def using distinct_latest by (rule pd_sum_distinct)
  have s2: "total_rev_4w cfg raw n4
      = (\<Sum>r \<in> set (prev cfg raw n4). case revenue r of None \<Rightarrow> 0 | Some x \<Rightarrow> x)"
    unfolding total_rev_4w_def using distinct_prev by (rule pd_sum_distinct)
  have s3: "rev_at_risk cfg raw
      = (\<Sum>r \<in> set (risky cfg raw). case revenue r of None \<Rightarrow> 0 | Some x \<Rightarrow> x)"
    unfolding rev_at_risk_def using distinct_risky by (rule pd_sum_distinct)
  have b: "\<forall>(b, v) \<in> set (brand_rev cfg raw).
        v = (\<Sum>r \<in> {r \<in> set (latest cfg raw). brand_name r = b}.
               case revenue r of None \<Rightarrow> 0 | Some x \<Rightarrow> x)"
    using brand_rev_entry [of _ _ cfg raw] by fast
  have v: "(item_id v, date v) \<in> (\<lambda>r. (item_id r, date r)) ` set xs \<longrightarrow>
       total_rev_latest cfg (xs @ v # ys) = total_rev_latest cfg (xs @ ys)
     \<and> total_rev_4w cfg (xs @ v # ys) n4 = total_rev_4w cfg (xs @ ys) n4
     \<and> rev_at_risk cfg (xs @ v # ys) = rev_at_risk cfg (xs @ ys)
     \<and> brand_rev cfg (xs @ v # ys) = brand_rev cfg (xs @ ys)"
  proof
    assume "(item_id v, date v) \<in> (\<lambda>r. (item_id r, date r)) ` set xs"
    then have eq: "item_df cfg (xs @ v # ys) = item_df cfg (xs @ ys)"
      by (rule item_df_variant)
    then have "filt cfg (xs @ v # ys) = filt cfg (xs @ ys)"
      and "LATEST_DATE cfg (xs @ v # ys) = LATEST_DATE cfg (xs @ ys)"
      by (simp_all add: filt_def active_skus_def all_skus_def active_brands_def all_brands_def
            LATEST_DATE_def)
    then have "latest cfg (xs @ v # ys) = latest cfg (xs @ ys)"
      and "prev cfg (xs @ v # ys) n4 = prev cfg (xs @ ys) n4"
      by (simp_all add: latest_def prev_def)
    then show "total_rev_latest cfg (xs @ v # ys) = total_rev_latest cfg (xs @ ys)
     \<and> total_rev_4w cfg (xs @ v # ys) n4 = total_rev_4w cfg (xs @ ys) n4
     \<and> rev_at_risk cfg (xs @ v # ys) = rev_at_risk cfg (xs @ ys)
     \<and> brand_rev cfg (xs @ v # ys) = brand_rev cfg (xs @ ys)"
      by (simp add: total_rev_latest_def total_rev_4w_def rev_at_risk_def risky_def brand_rev_def)
  qed
  from l p r i s1 s2 s3 brand_rev_keys [of cfg raw] b v show ?thesis
    by (intro conjI)
qed

lemma example_snapshots:
  "latest example_filters variant_table
     = [example_table ! 1, example_table ! 2, example_table ! 4, example_table ! 6]"
  "prev example_filters variant_table 28
     = [example_table ! 0, example_table ! 3, example_table ! 5]"
  "risky example_filters variant_table = [example_table ! 2, example_table ! 4]"
  by (simp_all add: snapshot_defs kpi_defs example_defs variant_table_def)

theorem revenue_counted_exactly_once_witness:
  "length (filter (\<lambda>r. item_id r = 1 \<and> date r = Some 56 \<and> revenue r = Some 150) variant_table) = 3
 \<and> length (filter (\<lambda>r. item_id r = 1 \<and> date r = Some 28 \<and> revenue r = Some 100) variant_table) = 2
 \<and> length (filter (\<lambda>r. item_id r = 3 \<and> date r = Some 56 \<and> revenue r = Some 80) variant_table) = 2
 \<and> nearest_4w example_filters variant_table = Inr 28
 \<and> total_rev_latest example_filters variant_table = 150 + 50 + 80 + 0
 \<and> total_rev_4w example_filters variant_table 28 = 100 + 40 + 0
 \<and> rev_at_risk example_filters variant_table = 50 + 80
 \<and> brand_rev example_filters variant_table = [(1, 150 + 80), (2, 50 + 0)]"
proof -
  have split: "variant_table = take 4 variant_table @ variant_table ! 4 # drop 5 variant_table"
    by (simp add: variant_table_def)
  have key: "(item_id (variant_table ! 4), date (variant_table ! 4))
      \<in> (\<lambda>r. (item_id r, date r)) ` set (take 4 variant_table)"
    by (simp add: variant_table_def)
  note t = revenue_counted_exactly_once [where cfg = example_filters and raw = variant_table
      and ?n4.0 = 28 and v = "variant_table ! 4" and xs = "take 4 variant_table"
      and ys = "drop 5 variant_table"]
  from t key have "brand_rev example_filters (take 4 variant_table @ variant_table ! 4 # drop 5 variant_table)
      = brand_rev example_filters (take 4 variant_table @ drop 5 variant_table)"
    by (elim conjE impE) assumption+
  then have inv: "brand_rev example_filters variant_table
      = brand_rev example_filters (take 4 variant_table @ drop 5 variant_table)"
    using split by simp
  from t have s1: "total_rev_latest example_filters variant_table
      = (\<Sum>r \<in> set (latest example_filters variant_table).
           case revenue r of None \<Rightarrow> 0 | Some x \<Rightarrow> x)"
    by (elim conjE)
  from t have s2: "total_rev_4w example_filters variant_table 28
      = (\<Sum>r \<in> set (prev example_filters variant_table 28).
           case revenue r of None \<Rightarrow> 0 | Some x \<Rightarrow> x)"
    by (elim conjE)
  from t have s3: "rev_at_risk example_filters variant_table
      = (\<Sum>r \<in> set (risky example_filters variant_table).
           case revenue r of None \<Rightarrow> 0 | Some x \<Rightarrow> x)"
    by (elim conjE)
  from s1 s2 s3 have "total_rev_latest example_filters variant_table = 150 + 50 + 80 + 0"
    and "total_rev_4w example_filters variant_table 28 = 100 + 40 + 0"
    and "rev_at_risk example_filters variant_table = 50 + 80"
    by (simp_all add: example_snapshots example_table_def)
  moreover have "brand_rev example_filters (take 4 variant_table @ drop 5 variant_table)
      = [(1, 150 + 80), (2, 50 + 0)]"
    by (simp add: snapshot_defs kpi_defs example_defs variant_table_def)
  with inv have "brand_rev example_filters variant_table = [(1, 150 + 80), (2, 50 + 0)]"
    by simp
  moreover have "nearest_4w example_filters variant_table = Inr 28"
    by (simp add: snapshot_defs example_defs variant_table_def)
  moreover have
    "length (filter (\<lambda>r. item_id r = 1 \<and> date r = Some 56 \<and> revenue r = Some 150) variant_table) = 3"
    "length (filter (\<lambda>r. item_id r = 1 \<and> date r = Some 28 \<and> revenue r = Some 100) variant_table) = 2"
    "length (filter (\<lambda>r. item_id r = 3 \<and> date r = Some 56 \<and> revenue r = Some 80) variant_table) = 2"
    by (simp_all add: variant_table_def example_table_def)
  ultimately show ?thesis by (intro conjI)
qed

subsection \<open>The reference date\<close>

lemma item_df_dated:
  "r \<in> set (item_df cfg raw) \<Longrightarrow> \<exists>d. date r = Some d \<and> date_start cfg \<le> d \<and> d \<le> date_end cfg"
  by (auto simp: item_df_def in_date_range_def split: option.splits)

lemma map_filter_all_Some:
  "\<forall>r \<in> set xs. f r \<noteq> None \<Longrightarrow> map f xs = map Some (List.map_filter f xs)"
  by (induction xs) (auto simp: List.map_filter_def)

lemma map_filter_map_Some: "List.map_filter (\<lambda>v. v) (map Some ds) = ds"
  by (induction ds) (auto simp: List.map_filter_def)

lemma date_column_item_df:
  "map date (item_df cfg raw) = map Some (date_values (item_df cfg raw))"
  unfolding date_values_def
  by (rule map_filter_all_Some) (use item_df_dated in fastforce)

lemma date_values_nonempty: "item_df cfg raw \<noteq> [] \<Longrightarrow> date_values (item_df cfg raw) \<noteq> []"
  using date_column_item_df [of cfg raw] by (metis map_is_Nil_conv)

lemma LATEST_DATE_Max:
  assumes "item_df cfg raw \<noteq> []"
  shows "LATEST_DATE cfg raw = Some (Max (set (date_values (item_df cfg raw))))"
proof -
  from assms obtain d ds where ds: "date_values (item_df cfg raw) = d # ds"
    using date_values_nonempty [of cfg raw] by (cases "date_values (item_df cfg raw)") auto
  show ?thesis
    by (simp add: LATEST_DATE_def pd_max_def date_column_item_df map_filter_map_Some ds
          Max.set_eq_fold del: set_simps)
qed

lemma distance_to_Some: "distance_to (Some t) = (\<lambda>d. Some \<bar>d - t\<bar>)"
  by (simp add: fun_eq_iff distance_to_def)

lemma py_min_loop_snoc:
  "py_min_loop key best (xs @ [x]) =
     (if timedelta_lt (key x) (key (py_min_loop key best xs)) then x else py_min_loop key best xs)"
  by (induction xs arbitrary: best) auto

lemma py_min_loop_first_minimal:
  "\<exists>i < length (best # xs).
      (best # xs) ! i = py_min_loop (\<lambda>d. Some (k d)) best xs
    \<and> (\<forall>j < length (best # xs). k ((best # xs) ! i) \<le> k ((best # xs) ! j))
    \<and> (\<forall>j < i. k ((best # xs) ! i) < k ((best # xs) ! j))"
proof (induction xs rule: rev_induct)
  case Nil
  show ?case by simp
next
  case (snoc x xs)
  define ys where "ys = best # xs"
  define m where "m = py_min_loop (\<lambda>d. Some (k d)) best xs"
  from snoc obtain i where i: "i < length ys" "ys ! i = m"
    and le: "\<forall>j < length ys. k (ys ! i) \<le> k (ys ! j)"
    and lt: "\<forall>j < i. k (ys ! i) < k (ys ! j)"
    unfolding ys_def m_def by blast
  have ys: "best # (xs @ [x]) = ys @ [x]" by (simp add: ys_def)
  have nth: "\<And>j. j < length ys \<Longrightarrow> (ys @ [x]) ! j = ys ! j"
    by (simp only: nth_append if_True)
  have nth_last: "(ys @ [x]) ! length ys = x"
    by (simp only: nth_append_length)
  have split: "\<And>j. j < length (ys @ [x]) \<Longrightarrow> j < length ys \<or> j = length ys"
    by auto
  show ?case
  proof (cases "k x < k m")
    case True
    then have res: "py_min_loop (\<lambda>d. Some (k d)) best (xs @ [x]) = x"
      by (simp add: py_min_loop_snoc timedelta_lt_def m_def)
    have all: "\<forall>j < length ys. k x < k (ys ! j)"
      using True le i by fastforce
    have "\<forall>j < length (ys @ [x]). k ((ys @ [x]) ! length ys) \<le> k ((ys @ [x]) ! j)"
      using all nth nth_last split by (metis less_imp_le order_refl)
    moreover have "\<forall>j < length ys. k ((ys @ [x]) ! length ys) < k ((ys @ [x]) ! j)"
      using all nth nth_last by metis
    moreover have "length ys < length (ys @ [x])" by simp
    ultimately show ?thesis
      unfolding ys res using nth_last by metis
  next
    case False
    then have res: "py_min_loop (\<lambda>d. Some (k d)) best (xs @ [x]) = m"
      by (simp add: py_min_loop_snoc timedelta_lt_def m_def)
    have "(ys @ [x]) ! i = m" using i nth by metis
    moreover have "\<forall>j < length (ys @ [x]). k ((ys @ [x]) ! i) \<le> k ((ys @ [x]) ! j)"
    proof (intro allI impI)
      fix j assume "j < length (ys @ [x])"
      then consider "j < length ys" | "j = length ys" using split by blast
      then show "k ((ys @ [x]) ! i) \<le> k ((ys @ [x]) ! j)"
      proof cases
        case 1
        with le i nth show ?thesis by metis
      next
        case 2
        have "k m \<le> k x" using False by simp
        with 2 i nth nth_last show ?thesis by metis
      qed
    qed
    moreover have "\<forall>j < i. k ((ys @ [x]) ! i) < k ((ys @ [x]) ! j)"
    proof (intro allI impI)
      fix j assume j: "j < i"
      then have "j < length ys" using i by simp
      with lt i nth j show "k ((ys @ [x]) ! i) < k ((ys @ [x]) ! j)" by metis
    qed
    moreover have "i < length (ys @ [x])" using i by simp
    ultimately show ?thesis
      unfolding ys res by blast
  qed
qed

text \<open>
  C5, as the code has it. When the date-filtered table \<open>item_df\<close> is not empty, the
  reference date is one of its distinct dates, at minimal absolute distance from the
  latest date minus 28 days; among the dates at that distance it is the one that occurs
  first in the table: every distinct date that occurs before it is strictly farther
  from the target.
\<close>

theorem nearest_4w_first_minimal:
  assumes "item_df cfg raw \<noteq> []"
  shows "\<exists>L n i. LATEST_DATE cfg raw = Some L
       \<and> L = Max (set (date_values (item_df cfg raw)))
       \<and> nearest_4w cfg raw = Inr n
       \<and> set (unique (date_values (item_df cfg raw))) = set (date_values (item_df cfg raw))
       \<and> distinct (unique (date_values (item_df cfg raw)))
       \<and> i < length (unique (date_values (item_df cfg raw)))
       \<and> unique (date_values (item_df cfg raw)) ! i = n
       \<and> (\<forall>d \<in> set (date_values (item_df cfg raw)). \<bar>n - (L - 28)\<bar> \<le> \<bar>d - (L - 28)\<bar>)
       \<and> (\<forall>j < i. \<bar>n - (L - 28)\<bar> < \<bar>unique (date_values (item_df cfg raw)) ! j - (L - 28)\<bar>)"
proof -
  define U where "U = unique (date_values (item_df cfg raw))"
  define L where "L = Max (set (date_values (item_df cfg raw)))"
  have latest: "LATEST_DATE cfg raw = Some L"
    using assms by (simp add: LATEST_DATE_Max L_def)
  from assms have "U \<noteq> []"
    by (simp add: U_def unique_nonempty date_values_nonempty)
  then obtain u us where U: "U = u # us" by (cases U) auto
  define n where "n = py_min_loop (\<lambda>d. Some \<bar>d - (L - 28)\<bar>) u us"
  have near: "nearest_4w cfg raw = Inr n"
    by (simp add: nearest_4w_def FOUR_W_AGO_def latest distance_to_Some py_min_def
          U_def [symmetric] U n_def)
  from py_min_loop_first_minimal [of u us "\<lambda>d. \<bar>d - (L - 28)\<bar>"]
  obtain i where i: "i < length U" "U ! i = n"
    and le: "\<forall>j < length U. \<bar>n - (L - 28)\<bar> \<le> \<bar>U ! j - (L - 28)\<bar>"
    and lt: "\<forall>j < i. \<bar>n - (L - 28)\<bar> < \<bar>U ! j - (L - 28)\<bar>"
    unfolding U n_def by metis
  have setU: "set U = set (date_values (item_df cfg raw))"
    by (simp add: U_def set_unique)
  have "\<forall>d \<in> set (date_values (item_df cfg raw)). \<bar>n - (L - 28)\<bar> \<le> \<bar>d - (L - 28)\<bar>"
    using le setU by (metis in_set_conv_nth)
  with latest near i lt setU show ?thesis
    unfolding U_def L_def using distinct_unique by blast
qed

theorem nearest_4w_first_minimal_witness:
  "item_df example_filters example_table \<noteq> []
 \<and> LATEST_DATE example_filters example_table = Some 56
 \<and> unique (date_values (item_df example_filters example_table)) = [28, 56]
 \<and> nearest_4w example_filters example_table = Inr 28"
proof -
  have a: "item_df example_filters example_table \<noteq> []"
    by (simp add: snapshot_defs example_defs)
  have u: "unique (date_values (item_df example_filters example_table)) = [28, 56]"
    by (simp add: snapshot_defs example_defs)
  have l: "LATEST_DATE example_filters example_table = Some 56"
    by (simp add: snapshot_defs example_defs)
  from nearest_4w_first_minimal [OF a] obtain n i where
    n: "nearest_4w example_filters example_table = Inr n"
    and i: "i < length (unique (date_values (item_df example_filters example_table)))"
       "unique (date_values (item_df example_filters example_table)) ! i = n"
    and le: "\<forall>d \<in> set (date_values (item_df example_filters example_table)).
               \<bar>n - (56 - 28)\<bar> \<le> \<bar>d - (56 - 28)\<bar>"
    unfolding l by auto
  have "(28::int) \<in> set (date_values (item_df example_filters example_table))"
    by (simp add: snapshot_defs example_defs)
  with le have "\<bar>n - 28\<bar> \<le> 0" by fastforce
  then have "n = 28" by simp
  with n a u l show ?thesis by simp
qed

text \<open>
  The claim says that of two equidistant dates the earlier one is selected. In
  \<open>tie_table\<close> the dates 27 and 29 are both one day from the target 28, the row dated
  29 comes first, and the reference date is 29.
\<close>

theorem nearest_4w_tie_counterexample:
  "LATEST_DATE example_filters tie_table = Some 56
 \<and> unique (date_values (item_df example_filters tie_table)) = [29, 56, 27]
 \<and> \<bar>27 - (56 - 28)\<bar> = \<bar>29 - (56 - 28 :: int)\<bar>
 \<and> nearest_4w example_filters tie_table = Inr 29"
  by (simp add: snapshot_defs example_defs)

subsection \<open>An empty date window\<close>

lemma nearest_4w_empty: "item_df cfg raw = [] \<Longrightarrow> nearest_4w cfg raw = Inl ValueError"
  by (simp add: nearest_4w_def date_values_def List.map_filter_def unique_def py_min_def)

lemma empty_latest_kpis:
  "latest cfg raw = [] \<Longrightarrow>
     total_rev_latest cfg raw = 0 \<and> rev_at_risk cfg raw = 0 \<and> high_scaling_count cfg raw n4 = 0
     \<and> high_scaling_rev cfg raw n4 = 0 \<and> avg_rating_text (avg_rating cfg raw) = NotAvailable
     \<and> brand_rev cfg raw = [] \<and> sku_merged cfg raw n4 = []"
  by (simp add: total_rev_latest_def rev_at_risk_def risky_def pd_sum_def high_scaling_count_def
        high_scaling_rev_def high_scaling_def sku_merged_def sku_latest_def avg_rating_def
        avg_rating_text_def brand_rev_def unique_def)

text \<open>
  C2. The claim: an empty filtered table is not an error, sums are zero and the mean
  is reported as not available. That is what happens when only \<open>latest\<close> is empty
  (\<open>empty_latest_kpis\<close>). When the date range itself holds no row, \<^verbatim>\<open>min\<close> of line 117
  gets an empty sequence and the script ends with \<^verbatim>\<open>ValueError\<close> before any KPI is
  computed.
\<close>

theorem dashboard_empty_window_raises:
  "date_start cfg \<le> date_end cfg \<Longrightarrow> item_df cfg raw = [] \<Longrightarrow> dashboard cfg raw = Inl ValueError"
  by (simp add: dashboard_def nearest_4w_empty)

theorem dashboard_empty_window_raises_witness:
  "date_start gap_filters \<le> date_end gap_filters
 \<and> item_df gap_filters example_table = []
 \<and> dashboard gap_filters example_table = Inl ValueError"
proof -
  have a: "date_start gap_filters \<le> date_end gap_filters"
    by (simp add: example_defs)
  have b: "item_df gap_filters example_table = []"
    by (simp add: snapshot_defs example_defs)
  from dashboard_empty_window_raises [OF a b] a b show ?thesis by blast
qed

subsection \<open>Growth\<close>

text \<open>
  Once the reference date exists, portfolio growth is the growth formula on the sums of
  revenue over the latest and the reference snapshot, both without duplicate (item,
  date) rows; it is 0 when the reference sum is 0, in particular when the reference
  snapshot is empty. Per-item growth on a reference revenue of 0 or on a missing one is
  undefined instead.
\<close>

lemma portfolio_growth_policy:
  "total_rev_latest cfg raw = pd_sum (map revenue (latest cfg raw))
 \<and> total_rev_4w cfg raw n4 = pd_sum (map revenue (prev cfg raw n4))
 \<and> distinct (map (\<lambda>r. (item_id r, date r)) (latest cfg raw))
 \<and> distinct (map (\<lambda>r. (item_id r, date r)) (prev cfg raw n4))
 \<and> (total_rev_4w cfg raw n4 \<noteq> 0 \<longrightarrow>
       portfolio_growth_pct cfg raw n4 =
         (total_rev_latest cfg raw - total_rev_4w cfg raw n4) / total_rev_4w cfg raw n4 * 100)
 \<and> (total_rev_4w cfg raw n4 = 0 \<longrightarrow> portfolio_growth_pct cfg raw n4 = 0)
 \<and> (prev cfg raw n4 = [] \<longrightarrow> portfolio_growth_pct cfg raw n4 = 0)
 \<and> sku_growth rev_latest (Some 0) = None \<and> sku_growth rev_latest None = None"
  by (simp add: portfolio_growth_pct_def total_rev_latest_def total_rev_4w_def pd_sum_Nil
        distinct_latest distinct_prev sku_growth_def)

lemma portfolio_growth_example:
  "portfolio_growth_pct example_filters example_table 28 = 100
 \<and> total_rev_4w brand_filters example_table 28 = 0
 \<and> portfolio_growth_pct brand_filters example_table 28 = 0
 \<and> prev item_filters example_table 28 = []
 \<and> portfolio_growth_pct item_filters example_table 28 = 0"
proof -
  have a: "total_rev_latest example_filters example_table = 280"
    "total_rev_4w example_filters example_table 28 = 140"
    by (simp_all add: snapshot_defs kpi_defs example_defs)
  have b: "total_rev_4w brand_filters example_table 28 = 0"
    by (simp add: snapshot_defs kpi_defs example_defs)
  have c: "prev item_filters example_table 28 = []"
    by (simp add: snapshot_defs kpi_defs example_defs)
  from portfolio_growth_policy [of example_filters example_table 28] a
  have "portfolio_growth_pct example_filters example_table 28 = 100" by simp
  moreover from portfolio_growth_policy [of brand_filters example_table 28] b
  have "portfolio_growth_pct brand_filters example_table 28 = 0" by simp
  moreover from portfolio_growth_policy [of item_filters example_table 28] c
  have "portfolio_growth_pct item_filters example_table 28 = 0" by blast
  ultimately show ?thesis using b c by simp
qed

lemma filt_empty: "item_df cfg raw = [] \<Longrightarrow> filt cfg raw = []"
  by (simp add: filt_def)

text \<open>
  C7. The claim: portfolio growth is 0, and not an error, whenever the reference
  snapshot is empty. When the date range holds no row, the reference snapshot is empty
  for every reference date and its revenue sum is 0, but the script has ended with the
  \<^verbatim>\<open>ValueError\<close> of line 117 before line 153 computes the growth.
\<close>

theorem portfolio_growth_empty_window:
  assumes "date_start cfg \<le> date_end cfg" and "item_df cfg raw = []"
  shows "(\<forall>n4. prev cfg raw n4 = [] \<and> total_rev_4w cfg raw n4 = 0)
       \<and> nearest_4w cfg raw = Inl ValueError
       \<and> dashboard cfg raw = Inl ValueError"
  using assms
  by (simp add: dashboard_def nearest_4w_empty prev_def total_rev_4w_def filt_empty pd_sum_def)

theorem portfolio_growth_empty_window_witness:
  "date_start gap_filters \<le> date_end gap_filters
 \<and> item_df gap_filters example_table = []
 \<and> prev gap_filters example_table 28 = []
 \<and> total_rev_4w gap_filters example_table 28 = 0
 \<and> dashboard gap_filters example_table = Inl ValueError"
proof -
  have a: "date_start gap_filters \<le> date_end gap_filters"
    by (simp add: example_defs)
  have b: "item_df gap_filters example_table = []"
    by (simp add: snapshot_defs example_defs)
  from portfolio_growth_empty_window [OF a b] a b show ?thesis by blast
qed

lemma first_valid_Nil: "first_valid [] = None"
  by simp

lemma map_of_keys: "map_of (map (\<lambda>k. (k, f k)) ks) k = (if k \<in> set ks then Some (f k) else None)"
  by (induction ks) auto

lemma groupby_keys:
  assumes "\<forall>k \<in> set ks. filter (\<lambda>r. item_id r = k) xs \<noteq> []"
    and "\<And>k r rs. item_id (g k r rs) = k"
  shows "map item_id (concat (map (\<lambda>k. case filter (\<lambda>r. item_id r = k) xs of
            [] \<Rightarrow> [] | r # rs \<Rightarrow> [g k r rs]) ks)) = ks"
  using assms(1)
proof (induction ks)
  case Nil
  then show ?case by simp
next
  case (Cons k ks)
  then obtain r rs where "filter (\<lambda>r. item_id r = k) xs = r # rs"
    by (cases "filter (\<lambda>r. item_id r = k) xs") auto
  with Cons show ?case by (simp add: assms(2))
qed

lemma item_id_sku_latest:
  "map item_id (sku_latest cfg raw) = sort (unique (map item_id (latest cfg raw)))"
proof -
  have "\<forall>k \<in> set (sort (unique (map item_id (latest cfg raw)))).
          filter (\<lambda>r. item_id r = k) (latest cfg raw) \<noteq> []"
    by (auto simp: set_unique filter_empty_conv)
  then show ?thesis
    unfolding sku_latest_def by (rule groupby_keys) simp
qed

lemma revenue_latest_sku_latest:
  assumes "s \<in> set (sku_latest cfg raw)"
  shows "revenue_latest s = first_valid (map revenue (filter (\<lambda>r. item_id r = item_id s) (latest cfg raw)))
   \<and> rating s = first_valid (map rating (filter (\<lambda>r. item_id r = item_id s) (latest cfg raw)))
   \<and> rating_count s = first_valid (map rating_count (filter (\<lambda>r. item_id r = item_id s) (latest cfg raw)))"
proof -
  from assms obtain k where
    s: "s \<in> set (case filter (\<lambda>r. item_id r = k) (latest cfg raw) of
           [] \<Rightarrow> []
         | r # rs \<Rightarrow>
             [\<lparr>item_id = k, brand_name = brand_name r,
               title = first_valid (map title (r # rs)),
               rating = first_valid (map rating (r # rs)),
               rating_count = first_valid (map rating_count (r # rs)),
               revenue_latest = first_valid (map revenue (r # rs))\<rparr>])"
    by (auto simp: sku_latest_def)
  show ?thesis
  proof (cases "filter (\<lambda>r. item_id r = k) (latest cfg raw)")
    case Nil
    with s show ?thesis by simp
  next
    case (Cons r rs)
    with s have "item_id s = k" by simp
    with s Cons show ?thesis by simp
  qed
qed

lemma revenue_4w_lookup:
  "(case map_of (sku_prev cfg raw n4) k of None \<Rightarrow> None | Some v \<Rightarrow> v) =
   first_valid (map revenue (filter (\<lambda>r. item_id r = k) (prev cfg raw n4)))"
proof (cases "k \<in> item_id ` set (prev cfg raw n4)")
  case True
  then show ?thesis by (simp add: sku_prev_def map_of_keys set_unique)
next
  case False
  then have "filter (\<lambda>r. item_id r = k) (prev cfg raw n4) = []"
    by (auto simp: filter_empty_conv)
  with False show ?thesis by (simp add: sku_prev_def map_of_keys set_unique)
qed

lemma item_id_sku_merged:
  "map item_id (sku_merged cfg raw n4) = sort (unique (map item_id (latest cfg raw)))"
  by (simp add: sku_merged_def Let_def comp_def item_id_sku_latest [symmetric])

lemma sku_merged_row:
  assumes "s \<in> set (sku_merged cfg raw n4)"
  shows "revenue_latest s = first_valid (map revenue (filter (\<lambda>r. item_id r = item_id s) (latest cfg raw)))"
    and "revenue_4w s = first_valid (map revenue (filter (\<lambda>r. item_id r = item_id s) (prev cfg raw n4)))"
    and "growth_pct s = sku_growth (revenue_latest s) (revenue_4w s)"
    and "rating s = first_valid (map rating (filter (\<lambda>r. item_id r = item_id s) (latest cfg raw)))"
    and "rating_count s = first_valid (map rating_count (filter (\<lambda>r. item_id r = item_id s) (latest cfg raw)))"
  using assms revenue_latest_sku_latest [of _ cfg raw]
  by (auto simp: sku_merged_def Let_def revenue_4w_lookup)

lemma example_sku_merged:
  "sku_merged example_filters example_table 28 =
     [\<lparr>item_id = 1, brand_name = 1, title = None, rating = Some 4.5, rating_count = Some 300,
        revenue_latest = Some 150, revenue_4w = Some 100, growth_pct = Some 50\<rparr>,
      \<lparr>item_id = 2, brand_name = 2, title = None, rating = Some 3.5, rating_count = Some 300,
        revenue_latest = Some 50, revenue_4w = None, growth_pct = None\<rparr>,
      \<lparr>item_id = 3, brand_name = 1, title = None, rating = Some 3.5, rating_count = Some 500,
        revenue_latest = Some 80, revenue_4w = Some 40, growth_pct = Some 100\<rparr>,
      \<lparr>item_id = 4, brand_name = 2, title = None, rating = Some 4.8, rating_count = Some 50,
        revenue_latest = Some 0, revenue_4w = Some 0, growth_pct = None\<rparr>]"
  by (simp add: snapshot_defs kpi_defs example_defs)

text \<open>
  C6. \<open>sku_merged\<close> has one row per item of the latest snapshot. Its growth is
  \<open>(revenue_latest - revenue_4w) / revenue_4w * 100\<close> when the item's reference revenue is
  present and positive (and missing when the latest revenue is missing); it is missing
  when the reference revenue is absent, zero or negative. A row with missing growth is
  in none of the high-scaling set, the declining set and the scatter view.
\<close>

theorem sku_growth_rule:
  "map item_id (sku_merged cfg raw n4) = sort (unique (map item_id (latest cfg raw)))
 \<and> (\<forall>s \<in> set (sku_merged cfg raw n4).
        revenue_latest s = first_valid (map revenue (filter (\<lambda>r. item_id r = item_id s) (latest cfg raw)))
      \<and> revenue_4w s = first_valid (map revenue (filter (\<lambda>r. item_id r = item_id s) (prev cfg raw n4)))
      \<and> growth_pct s =
          (case revenue_4w s of
             None \<Rightarrow> None
           | Some b \<Rightarrow>
               if b > 0
               then (case revenue_latest s of None \<Rightarrow> None | Some a \<Rightarrow> Some ((a - b) / b * 100))
               else None)
      \<and> (growth_pct s = None \<longrightarrow>
            s \<notin> set (high_scaling cfg raw n4) \<and> s \<notin> set (declining cfg raw n4)
          \<and> s \<notin> fst ` set (scatter_data cfg raw n4)))"
proof -
  have "\<forall>s \<in> set (sku_merged cfg raw n4). growth_pct s = None \<longrightarrow>
            s \<notin> set (high_scaling cfg raw n4) \<and> s \<notin> set (declining cfg raw n4)
          \<and> s \<notin> fst ` set (scatter_data cfg raw n4)"
    by (auto simp: high_scaling_def declining_def scatter_data_def nan_gt_def nan_lt_def)
  moreover have "\<forall>s \<in> set (sku_merged cfg raw n4). growth_pct s =
          (case revenue_4w s of
             None \<Rightarrow> None
           | Some b \<Rightarrow>
               if b > 0
               then (case revenue_latest s of None \<Rightarrow> None | Some a \<Rightarrow> Some ((a - b) / b * 100))
               else None)"
    using sku_merged_row(3) [of _ cfg raw n4] by (simp add: sku_growth_def)
  ultimately show ?thesis
    using sku_merged_row(1,2) [of _ cfg raw n4] item_id_sku_merged [of cfg raw n4] by blast
qed

theorem sku_growth_rule_witness:
  "map (\<lambda>s. (item_id s, revenue_4w s, growth_pct s)) (sku_merged example_filters example_table 28)
     = [(1, Some 100, Some 50), (2, None, None), (3, Some 40, Some 100), (4, Some 0, None)]
 \<and> sku_merged example_filters example_table 28 ! 1 \<notin> set (high_scaling example_filters example_table 28)
 \<and> sku_merged example_filters example_table 28 ! 1 \<notin> set (declining example_filters example_table 28)
 \<and> sku_merged example_filters example_table 28 ! 3 \<notin> set (high_scaling example_filters example_table 28)
 \<and> sku_merged example_filters example_table 28 ! 3 \<notin> set (declining example_filters example_table 28)"
proof -
  let ?M = "sku_merged example_filters example_table 28"
  have m: "?M ! 1 \<in> set ?M" "?M ! 3 \<in> set ?M" "growth_pct (?M ! 1) = None" "growth_pct (?M ! 3) = None"
    by (simp_all add: example_sku_merged)
  from sku_growth_rule [of example_filters example_table 28]
  have "\<forall>s \<in> set ?M. growth_pct s = None \<longrightarrow>
          s \<notin> set (high_scaling example_filters example_table 28)
        \<and> s \<notin> set (declining example_filters example_table 28)"
    by blast
  with m have "?M ! 1 \<notin> set (high_scaling example_filters example_table 28)
      \<and> ?M ! 1 \<notin> set (declining example_filters example_table 28)
      \<and> ?M ! 3 \<notin> set (high_scaling example_filters example_table 28)
      \<and> ?M ! 3 \<notin> set (declining example_filters example_table 28)"
    by blast
  moreover have "map (\<lambda>s. (item_id s, revenue_4w s, growth_pct s)) ?M
     = [(1, Some 100, Some 50), (2, None, None), (3, Some 40, Some 100), (4, Some 0, None)]"
    by (simp add: example_sku_merged)
  ultimately show ?thesis by blast
qed

subsection \<open>Classification\<close>

lemma at_risk_excludes_high_scaling:
  "\<not> (nan_lt (rating s) t \<and> nan_ge (rating s) t)"
  by (auto simp: nan_lt_def nan_ge_def split: option.splits)




end
